theory Spec2Isabelle
  imports Main "HOL-Library.AList"
begin

section \<open>Announcements endpoints: a model of \<^verbatim>\<open>src/backend/routers/announcements.py\<close>\<close>

text \<open>
  The router has five request handlers over two MongoDB collections. The handlers are
  modelled as functions that take the database and the values the handler samples from
  its environment (each \<^verbatim>\<open>datetime.now()\<close>, the \<^verbatim>\<open>ObjectId\<close> the driver generates for
  an insert) and return the outcome together with the database afterwards. An exception
  that leaves the handler is the \<open>Inl\<close> branch of the outcome.
\<close>

subsection \<open>Exceptions\<close>

text \<open>
  \<open>HTTPException status detail\<close> is what the handlers raise on purpose. \<open>TypeError\<close>
  and \<open>DuplicateKeyError\<close> are raised by the libraries underneath and are not caught
  anywhere in the module: they leave the handler as a server fault.
\<close>

datatype exn = HTTPException nat string | TypeError | DuplicateKeyError

subsection \<open>Strings\<close>

text \<open>\<^verbatim>\<open>s.replace('Z', '+00:00')\<close>: every occurrence of the character is replaced.\<close>

definition replace_Z :: "string \<Rightarrow> string" where
  "replace_Z s = concat (map (\<lambda>c. if c = CHR ''Z'' then ''+00:00'' else [c]) s)"

text \<open>
  The order MongoDB puts on strings under the default (simple binary) collation, which
  is also Python's order on ASCII strings: bytewise lexicographic, a proper prefix first.
\<close>

fun str_le :: "string \<Rightarrow> string \<Rightarrow> bool" where
  "str_le [] t = True"
| "str_le (c # s) [] = False"
| "str_le (c # s) (d # t) =
     ((of_char c :: nat) < of_char d \<or> (c = d \<and> str_le s t))"

definition is_digit :: "char \<Rightarrow> bool" where
  "is_digit c = (48 \<le> (of_char c :: nat) \<and> (of_char c :: nat) \<le> 57)"

definition digit_val :: "char \<Rightarrow> nat" where
  "digit_val c = of_char c - 48"

text \<open>
  The character at an index of a string, the terminating NUL past its end (the parsers
  of \<^verbatim>\<open>datetime\<close> are C code and read the string that way).
\<close>

definition char_at :: "string \<Rightarrow> nat \<Rightarrow> char" where
  "char_at s i = (if i < length s then s ! i else CHR 0x00)"

text \<open>\<open>num_digits\<close> decimal digits at position \<open>p\<close>, read as a number; anything else fails.\<close>

definition parse_digits :: "string \<Rightarrow> nat \<Rightarrow> nat \<Rightarrow> nat option" where
  "parse_digits s p num_digits =
     (let ds = take num_digits (drop p s) in
      if length ds = num_digits \<and> list_all is_digit ds
      then Some (foldl (\<lambda>n c. 10 * n + digit_val c) 0 ds) else None)"

text \<open>\<^verbatim>\<open>"%0wd" % n\<close> for a number that fits in \<open>w\<close> digits.\<close>

fun zero_pad :: "nat \<Rightarrow> nat \<Rightarrow> string" where
  "zero_pad 0 n = []"
| "zero_pad (Suc w) n = zero_pad w (n div 10) @ [''0123456789'' ! (n mod 10)]"

subsection \<open>Python's \<^verbatim>\<open>datetime\<close>\<close>

text \<open>
  A \<^verbatim>\<open>datetime\<close> object: the calendar fields and \<^verbatim>\<open>tzinfo\<close>. Only fixed offsets occur
  (\<^verbatim>\<open>fromisoformat\<close> builds no other), so \<open>utcoffset\<close> is \<open>None\<close> for a naive object
  and the offset from UTC in microseconds for an aware one.
\<close>

record datetime =
  year :: nat
  month :: nat
  day :: nat
  hour :: nat
  minute :: nat
  second :: nat
  microsecond :: nat
  utcoffset :: "int option"

text \<open>
  What \<^verbatim>\<open>datetime.now()\<close> reads: the local wall clock. The result carries no
  \<^verbatim>\<open>tzinfo\<close>, so the handlers take a \<open>clock\<close> and \<open>datetime_now\<close> makes the naive object.
\<close>

record clock =
  c_year :: nat
  c_month :: nat
  c_day :: nat
  c_hour :: nat
  c_minute :: nat
  c_second :: nat
  c_microsecond :: nat

definition datetime_now :: "clock \<Rightarrow> datetime" where
  "datetime_now c =
     \<lparr>year = c_year c, month = c_month c, day = c_day c, hour = c_hour c,
      minute = c_minute c, second = c_second c, microsecond = c_microsecond c,
      utcoffset = None\<rparr>"

definition is_leap :: "nat \<Rightarrow> bool" where
  "is_leap y = (y mod 4 = 0 \<and> (y mod 100 \<noteq> 0 \<or> y mod 400 = 0))"

definition days_in_month :: "nat \<Rightarrow> nat \<Rightarrow> nat" where
  "days_in_month y m =
     (if m = 2 then (if is_leap y then 29 else 28)
      else if m = 4 \<or> m = 6 \<or> m = 9 \<or> m = 11 then 30 else 31)"

definition days_before_year :: "nat \<Rightarrow> nat" where
  "days_before_year y = (y - 1) * 365 + (y - 1) div 4 - (y - 1) div 100 + (y - 1) div 400"

definition days_before_month :: "nat \<Rightarrow> nat \<Rightarrow> nat" where
  "days_before_month y m =
     [0, 31, 59, 90, 120, 151, 181, 212, 243, 273, 304, 334] ! (m - 1)
     + (if m > 2 \<and> is_leap y then 1 else 0)"

text \<open>Microseconds of the wall-clock fields since 0001-01-01T00:00:00 (proleptic Gregorian).\<close>

definition wall_micros :: "datetime \<Rightarrow> int" where
  "wall_micros d =
     int ((((days_before_year (year d) + days_before_month (year d) (month d) + (day d - 1)) * 24
            + hour d) * 60 + minute d) * 60 + second d) * 1000000 + int (microsecond d)"

text \<open>
  The ordering comparisons of \<^verbatim>\<open>datetime\<close>. Two naive objects compare by their fields,
  two aware ones by their UTC instants, and comparing a naive with an aware one raises
  \<^verbatim>\<open>TypeError: can't compare offset-naive and offset-aware datetimes\<close>.
\<close>

definition dt_le :: "datetime \<Rightarrow> datetime \<Rightarrow> exn + bool" where
  "dt_le a b =
     (case (utcoffset a, utcoffset b) of
        (None, None) \<Rightarrow> Inr (wall_micros a \<le> wall_micros b)
      | (Some oa, Some ob) \<Rightarrow> Inr (wall_micros a - oa \<le> wall_micros b - ob)
      | (None, Some ob) \<Rightarrow> Inl TypeError
      | (Some oa, None) \<Rightarrow> Inl TypeError)"

definition dt_ge :: "datetime \<Rightarrow> datetime \<Rightarrow> exn + bool" where
  "dt_ge a b = dt_le b a"

text \<open>
  \<^verbatim>\<open>datetime.isoformat()\<close> of a naive object:
  \<^verbatim>\<open>YYYY-MM-DDTHH:MM:SS\<close>, followed by \<^verbatim>\<open>.ffffff\<close> when the microsecond is not zero.
\<close>

definition isoformat :: "datetime \<Rightarrow> string" where
  "isoformat d =
     zero_pad 4 (year d) @ ''-'' @ zero_pad 2 (month d) @ ''-'' @ zero_pad 2 (day d) @ ''T''
     @ zero_pad 2 (hour d) @ '':'' @ zero_pad 2 (minute d) @ '':'' @ zero_pad 2 (second d)
     @ (if microsecond d = 0 then [] else ''.'' @ zero_pad 6 (microsecond d))"

text \<open>
  \<^verbatim>\<open>datetime.fromisoformat\<close> as CPython 3.11 and later implement it. It accepts
  \<^verbatim>\<open>YYYY-MM-DD\<close>, \<^verbatim>\<open>YYYYMMDD\<close> and the week dates \<^verbatim>\<open>YYYY-Www[-D]\<close>, \<^verbatim>\<open>YYYYWww[D]\<close>, then
  (after any one separator character) \<^verbatim>\<open>HH[:MM[:SS[.f+]]]\<close> with or without the colons and
  with \<^verbatim>\<open>.\<close> or \<^verbatim>\<open>,\<close> before the fraction, then \<^verbatim>\<open>Z\<close> or an offset \<^verbatim>\<open>+HH[:MM[:SS[.f+]]]\<close>.
  The definitions follow the functions of \<^verbatim>\<open>_datetimemodule.c\<close> of the same names;
  \<open>None\<close> is the \<^verbatim>\<open>ValueError\<close> raised for every other string and for fields out of
  range.
\<close>

definition ymd_to_ord :: "nat \<Rightarrow> nat \<Rightarrow> nat \<Rightarrow> nat" where
  "ymd_to_ord y m d = days_before_year y + days_before_month y m + d"

text \<open>The day of the week of a date, Monday being 0.\<close>

definition weekday :: "nat \<Rightarrow> nat \<Rightarrow> nat \<Rightarrow> nat" where
  "weekday y m d = (ymd_to_ord y m d + 6) mod 7"

text \<open>The ordinal of the Monday that starts ISO week 1 of a year.\<close>

definition iso_week1_monday :: "nat \<Rightarrow> nat" where
  "iso_week1_monday y =
     (let first_day = ymd_to_ord y 1 1;
          first_weekday = (first_day + 6) mod 7;
          week1_monday = first_day - first_weekday
      in if first_weekday > 3 then week1_monday + 7 else week1_monday)"

definition ord_to_ymd :: "nat \<Rightarrow> nat \<times> nat \<times> nat" where
  "ord_to_ymd ordinal =
     (let n400 = (ordinal - 1) div 146097;
          r400 = (ordinal - 1) mod 146097;
          n100 = r400 div 36524;
          r100 = r400 mod 36524;
          n4 = r100 div 1461;
          r4 = r100 mod 1461;
          n1 = r4 div 365;
          n = r4 mod 365;
          y = n400 * 400 + 1 + n100 * 100 + n4 * 4 + n1
      in if n1 = 4 \<or> n100 = 4 then (y - 1, 12, 31)
         else
           (let m = (n + 50) div 32;
                preceding = days_before_month y m
            in if preceding > n
               then (y, m - 1, n - (preceding - days_in_month y (m - 1)) + 1)
               else (y, m, n - preceding + 1)))"

text \<open>
  An ISO week date as a calendar date. Week 53 exists in the years that start on a
  Thursday and in the leap years that start on a Wednesday.
\<close>

definition iso_to_ymd :: "nat \<Rightarrow> nat \<Rightarrow> nat \<Rightarrow> (nat \<times> nat \<times> nat) option" where
  "iso_to_ymd iso_year iso_week iso_day =
     (if iso_year < 1 \<or> 9999 < iso_year then None
      else if (iso_week = 0 \<or> 53 \<le> iso_week)
              \<and> \<not> (iso_week = 53
                    \<and> (weekday iso_year 1 1 = 3 \<or> (weekday iso_year 1 1 = 2 \<and> is_leap iso_year)))
      then None
      else if iso_day = 0 \<or> 8 \<le> iso_day then None
      else Some (ord_to_ymd (iso_week1_monday iso_year + (iso_week - 1) * 7 + iso_day - 1)))"

text \<open>
  Where the date part ends, from the length of the string and the characters at 4 and 5.
\<close>

definition find_isoformat_datetime_separator :: "string \<Rightarrow> nat option" where
  "find_isoformat_datetime_separator dtstr =
     (let len = length dtstr in
      if len = 7 then Some 7
      else if char_at dtstr 4 = CHR ''-'' then
        (if char_at dtstr 5 = CHR ''W'' then
           (if len < 8 then None
            else if len > 8 \<and> char_at dtstr 8 = CHR ''-'' then
              (if len = 9 then None
               else if len > 10 \<and> is_digit (char_at dtstr 10) then Some 8
               else Some 10)
            else Some 8)
         else Some 10)
      else if char_at dtstr 4 = CHR ''W'' then
        (let idx = 7 + length (takeWhile is_digit (drop 7 dtstr)) in
         if idx < 9 then Some idx
         else if idx mod 2 = 0 then Some 7
         else Some 8)
      else Some 8)"

text \<open>The date part; \<open>len\<close> is where it ends.\<close>

definition parse_isoformat_date :: "string \<Rightarrow> nat \<Rightarrow> (nat \<times> nat \<times> nat) option" where
  "parse_isoformat_date dtstr len =
     (case parse_digits dtstr 0 4 of
        None \<Rightarrow> None
      | Some y \<Rightarrow>
          (let uses_separator = (char_at dtstr 4 = CHR ''-'');
               p = (if uses_separator then 5 else 4)
           in if char_at dtstr p = CHR ''W'' then
                (case parse_digits dtstr (p + 1) 2 of
                   None \<Rightarrow> None
                 | Some iso_week \<Rightarrow>
                     (if p + 3 < len then
                        (if uses_separator \<and> char_at dtstr (p + 3) \<noteq> CHR ''-'' then None
                         else case parse_digits dtstr (if uses_separator then p + 4 else p + 3) 1 of
                                None \<Rightarrow> None
                              | Some iso_day \<Rightarrow> iso_to_ymd y iso_week iso_day)
                      else iso_to_ymd y iso_week 1))
              else
                (case parse_digits dtstr p 2 of
                   None \<Rightarrow> None
                 | Some m \<Rightarrow>
                     (if uses_separator \<and> char_at dtstr (p + 2) \<noteq> CHR ''-'' then None
                      else case parse_digits dtstr (if uses_separator then p + 3 else p + 2) 2 of
                             None \<Rightarrow> None
                           | Some d \<Rightarrow> Some (y, m, d)))))"

text \<open>
  What follows a two-digit component of a time that ends at \<open>q\<close>, in a time string that
  ends at \<open>p_end\<close>: the parse returns (with the flag "the string goes on"), goes on with the
  next component at a position, goes to the fraction at a position, or fails.
\<close>

datatype step = Fail | Return bool | Continue nat | Break nat

definition after_component :: "string \<Rightarrow> nat \<Rightarrow> bool \<Rightarrow> nat \<Rightarrow> step" where
  "after_component tstr p_end has_separator q =
     (let c = char_at tstr q in
      if q + 1 \<ge> p_end then Return (c \<noteq> CHR 0x00)
      else if has_separator \<and> c = CHR '':'' then Continue (q + 1)
      else if c = CHR ''.'' \<or> c = CHR '','' then Break (q + 1)
      else if \<not> has_separator then Continue q
      else Fail)"

text \<open>
  The fraction: at most six digits are read and scaled to microseconds, further digits
  are skipped. The flag is "the string goes on after them".
\<close>

definition parse_fraction :: "string \<Rightarrow> nat \<Rightarrow> nat \<Rightarrow> (bool \<times> nat) option" where
  "parse_fraction tstr p_end p =
     (let to_parse = min 6 (p_end - p) in
      case parse_digits tstr p to_parse of
        None \<Rightarrow> None
      | Some v \<Rightarrow>
          Some (char_at (dropWhile is_digit (drop (p + to_parse) tstr)) 0 \<noteq> CHR 0x00,
                v * 10 ^ (6 - to_parse)))"

text \<open>
  \<^verbatim>\<open>HH[:MM[:SS[.f+]]]\<close> in the part of \<open>tstr\<close> before \<open>p_end\<close>: the flag "the string goes
  on", then hour, minute, second and microsecond.
\<close>

definition parse_hh_mm_ss_ff ::
    "string \<Rightarrow> nat \<Rightarrow> (bool \<times> nat \<times> nat \<times> nat \<times> nat) option" where
  "parse_hh_mm_ss_ff tstr p_end =
     (case parse_digits tstr 0 2 of
        None \<Rightarrow> None
      | Some h \<Rightarrow>
          (let has_separator = (char_at tstr 2 = CHR '':'') in
           case after_component tstr p_end has_separator 2 of
             Fail \<Rightarrow> None
           | Return rv \<Rightarrow> Some (rv, h, 0, 0, 0)
           | Break p \<Rightarrow>
               map_option (\<lambda>(rv, f). (rv, h, 0, 0, f)) (parse_fraction tstr p_end p)
           | Continue p \<Rightarrow>
               (case parse_digits tstr p 2 of
                  None \<Rightarrow> None
                | Some m \<Rightarrow>
                    (case after_component tstr p_end has_separator (p + 2) of
                       Fail \<Rightarrow> None
                     | Return rv \<Rightarrow> Some (rv, h, m, 0, 0)
                     | Break p' \<Rightarrow>
                         map_option (\<lambda>(rv, f). (rv, h, m, 0, f)) (parse_fraction tstr p_end p')
                     | Continue p' \<Rightarrow>
                         (case parse_digits tstr p' 2 of
                            None \<Rightarrow> None
                          | Some s \<Rightarrow>
                              (case after_component tstr p_end has_separator (p' + 2) of
                                 Fail \<Rightarrow> None
                               | Return rv \<Rightarrow> Some (rv, h, m, s, 0)
                               | Break p'' \<Rightarrow>
                                   map_option (\<lambda>(rv, f). (rv, h, m, s, f))
                                     (parse_fraction tstr p_end p'')
                               | Continue p'' \<Rightarrow>
                                   map_option (\<lambda>(rv, f). (rv, h, m, s, f))
                                     (parse_fraction tstr p_end p'')))))))"

text \<open>
  The time part: the clock fields up to the first \<^verbatim>\<open>Z\<close>, \<^verbatim>\<open>+\<close> or \<^verbatim>\<open>-\<close>, then nothing (a
  naive time), a final \<^verbatim>\<open>Z\<close>, or an offset, here in microseconds.
\<close>

definition is_tz_start :: "char \<Rightarrow> bool" where
  "is_tz_start c = (c = CHR ''Z'' \<or> c = CHR ''+'' \<or> c = CHR ''-'')"

definition parse_isoformat_time ::
    "string \<Rightarrow> ((nat \<times> nat \<times> nat \<times> nat) \<times> int option) option" where
  "parse_isoformat_time dtstr =
     (let tzinfo_pos = length (takeWhile (\<lambda>c. \<not> is_tz_start c) dtstr) in
      case parse_hh_mm_ss_ff dtstr tzinfo_pos of
        None \<Rightarrow> None
      | Some (rv, comps) \<Rightarrow>
          (if tzinfo_pos = length dtstr then (if rv then None else Some (comps, None))
           else if char_at dtstr tzinfo_pos = CHR ''Z'' then
             (if char_at dtstr (tzinfo_pos + 1) \<noteq> CHR 0x00 then None else Some (comps, Some 0))
           else
             (let tzstr = drop (tzinfo_pos + 1) dtstr in
              case parse_hh_mm_ss_ff tzstr (length tzstr) of
                None \<Rightarrow> None
              | Some (rv', h, m, s, f) \<Rightarrow>
                  (if rv' then None
                   else Some (comps,
                          Some ((if char_at dtstr tzinfo_pos = CHR ''-'' then - 1 else 1)
                                * int (((h * 60 + m) * 60 + s) * 1000000 + f)))))))"

text \<open>The bytes of the separator character: one, or those of a UTF-8 sequence.\<close>

definition separator_width :: "char \<Rightarrow> nat" where
  "separator_width c =
     (if (of_char c :: nat) < 128 then 1
      else if (of_char c :: nat) div 16 = 14 then 3
      else if (of_char c :: nat) div 16 = 15 then 4
      else 2)"

text \<open>
  The whole string. The constructor of \<^verbatim>\<open>datetime\<close> checks the ranges of the fields, the
  one of \<^verbatim>\<open>timezone\<close> that the offset is strictly within a day.
\<close>

definition fromisoformat :: "string \<Rightarrow> datetime option" where
  "fromisoformat date_string =
     (if length date_string < 7 then None else
      case find_isoformat_datetime_separator date_string of
        None \<Rightarrow> None
      | Some separator_location \<Rightarrow>
          (case parse_isoformat_date date_string separator_location of
             None \<Rightarrow> None
           | Some (y, m, d) \<Rightarrow>
               (case (if length date_string > separator_location
                      then parse_isoformat_time
                             (drop (separator_location
                                    + separator_width (char_at date_string separator_location))
                                date_string)
                      else Some ((0, 0, 0, 0), None)) of
                  None \<Rightarrow> None
                | Some ((hh, mm, ss, us), tz) \<Rightarrow>
                    (if 1 \<le> y \<and> y \<le> 9999 \<and> 1 \<le> m \<and> m \<le> 12 \<and> 1 \<le> d
                        \<and> d \<le> days_in_month y m
                        \<and> hh < 24 \<and> mm < 60 \<and> ss < 60 \<and> us < 1000000
                        \<and> (case tz of None \<Rightarrow> True
                            | Some off \<Rightarrow> - 86400000000 < off \<and> off < 86400000000)
                     then Some \<lparr>year = y, month = m, day = d, hour = hh, minute = mm,
                                second = ss, microsecond = us, utcoffset = tz\<rparr>
                     else None))))"

subsection \<open>BSON values, documents and \<^verbatim>\<open>ObjectId\<close>\<close>

text \<open>
  The values the module reads and writes: \<^verbatim>\<open>None\<close>, strings and object ids. An object
  id is kept as the lower-case hexadecimal digits of its bytes, which is what \<^verbatim>\<open>str\<close>
  prints (24 digits for the twelve bytes of a generated id). A document
  (a Python \<^verbatim>\<open>dict\<close>, a BSON document) is an association list in insertion order:
  \<open>map_of d k\<close> is \<^verbatim>\<open>d.get(k)\<close>, \<open>AList.update k v d\<close> is \<^verbatim>\<open>d[k] = v\<close> and
  \<open>AList.delete k d\<close> is \<^verbatim>\<open>del d[k]\<close>.
\<close>

datatype bson = Null | Str string | Oid string

type_synonym document = "(string \<times> bson) list"

fun str :: "bson \<Rightarrow> string" where
  "str Null = ''None''"
| "str (Str s) = s"
| "str (Oid h) = h"

definition is_hex :: "char \<Rightarrow> bool" where
  "is_hex c = (is_digit c \<or> c \<in> set ''abcdefABCDEF'')"

definition lower_hex :: "char \<Rightarrow> char" where
  "lower_hex c =
     (if c = CHR ''A'' then CHR ''a'' else if c = CHR ''B'' then CHR ''b''
      else if c = CHR ''C'' then CHR ''c'' else if c = CHR ''D'' then CHR ''d''
      else if c = CHR ''E'' then CHR ''e'' else if c = CHR ''F'' then CHR ''f'' else c)"

text \<open>ASCII whitespace: space, tab, line feed, vertical tab, form feed, carriage return.\<close>

definition is_space :: "char \<Rightarrow> bool" where
  "is_space c = ((of_char c :: nat) = 32 \<or> (9 \<le> (of_char c :: nat) \<and> (of_char c :: nat) \<le> 13))"

text \<open>
  \<^verbatim>\<open>bytes.fromhex\<close>: two hexadecimal digits for each byte, whitespace skipped before a
  byte and at the end; \<open>None\<close> is its \<^verbatim>\<open>ValueError\<close>. The bytes are kept as the lower-case
  digits that \<^verbatim>\<open>hex\<close> prints.
\<close>

fun fromhex :: "string \<Rightarrow> string option" where
  "fromhex [] = Some []"
| "fromhex [c] = (if is_space c then Some [] else None)"
| "fromhex (c # d # cs) =
     (if is_space c then fromhex (d # cs)
      else if is_hex c \<and> is_hex d
      then map_option (\<lambda>bs. lower_hex c # lower_hex d # bs) (fromhex cs)
      else None)"

text \<open>
  \<^verbatim>\<open>ObjectId(s)\<close> for a string: a string of length 24 that \<^verbatim>\<open>bytes.fromhex\<close> accepts, or
  \<^verbatim>\<open>InvalidId\<close> (here \<open>None\<close>). The object id is the bytes read, so a string with
  whitespace in it gives one of fewer than twelve bytes.
\<close>

definition ObjectId :: "string \<Rightarrow> string option" where
  "ObjectId s = (if length s = 24 then fromhex s else None)"

subsection \<open>The collection operations the module calls\<close>

text \<open>
  The filters that occur in the module: \<^verbatim>\<open>{"$and": [...]}\<close>, \<^verbatim>\<open>{"$or": [...]}\<close>,
  \<^verbatim>\<open>{field: value}\<close>, \<^verbatim>\<open>{field: {"$lte": value}}\<close> and \<^verbatim>\<open>{field: {"$gte": value}}\<close>;
  the empty filter \<^verbatim>\<open>{}\<close> is \<open>And []\<close>.
\<close>

datatype cond = Eq bson | Lte bson | Gte bson

datatype query = And "query list" | Or "query list" | Field string cond

text \<open>
  MongoDB compares only values of one type with each other (a string is never
  \<^verbatim>\<open>$lte\<close> a null or an object id), and strings bytewise.
\<close>

fun bson_le :: "bson \<Rightarrow> bson \<Rightarrow> bool" where
  "bson_le Null Null = True"
| "bson_le (Str s) (Str t) = str_le s t"
| "bson_le (Oid s) (Oid t) = str_le s t"
| "bson_le v w = False"

text \<open>A condition on a field that may be missing; a missing field matches like a null.\<close>

fun cond_holds :: "cond \<Rightarrow> bson option \<Rightarrow> bool" where
  "cond_holds (Eq v) None = (v = Null)"
| "cond_holds (Eq v) (Some w) = (w = v)"
| "cond_holds (Lte v) None = (v = Null)"
| "cond_holds (Lte v) (Some w) = bson_le w v"
| "cond_holds (Gte v) None = (v = Null)"
| "cond_holds (Gte v) (Some w) = bson_le v w"

fun matches :: "query \<Rightarrow> document \<Rightarrow> bool" where
  "matches (And qs) d = list_all (\<lambda>q. matches q d) qs"
| "matches (Or qs) d = list_ex (\<lambda>q. matches q d) qs"
| "matches (Field k c) d = cond_holds c (map_of d k)"

definition find_coll :: "query \<Rightarrow> document list \<Rightarrow> document list" where
  "find_coll q coll = filter (matches q) coll"

definition find_one :: "query \<Rightarrow> document list \<Rightarrow> document option" where
  "find_one q coll = List.find (matches q) coll"

text \<open>
  \<^verbatim>\<open>insert_one(document)\<close> of the driver: a document without \<^verbatim>\<open>_id\<close> gets a new
  \<^verbatim>\<open>ObjectId\<close> written into the caller's dictionary (\<open>fresh\<close> is the id the driver
  generates), the document is stored with \<^verbatim>\<open>_id\<close> as its first field, and an \<^verbatim>\<open>_id\<close>
  already in the collection is refused. The result is the inserted id, the caller's
  dictionary as the call leaves it, and the collection.
\<close>

definition insert_one ::
    "string \<Rightarrow> document \<Rightarrow> document list \<Rightarrow> exn + (bson \<times> document \<times> document list)" where
  "insert_one fresh document coll =
     (let document' = (case map_of document ''_id'' of
                         None \<Rightarrow> AList.update ''_id'' (Oid fresh) document
                       | Some v \<Rightarrow> document);
          inserted_id = (case map_of document ''_id'' of None \<Rightarrow> Oid fresh | Some v \<Rightarrow> v)
      in if find_one (Field ''_id'' (Eq inserted_id)) coll \<noteq> None then Inl DuplicateKeyError
         else Inr (inserted_id, document',
                   coll @ [(''_id'', inserted_id) # AList.delete ''_id'' document']))"

text \<open>\<^verbatim>\<open>{"$set": changes}\<close> applied to one document.\<close>

definition apply_set :: "(string \<times> bson) list \<Rightarrow> document \<Rightarrow> document" where
  "apply_set changes d = fold (\<lambda>(k, v). AList.update k v) changes d"

text \<open>
  \<^verbatim>\<open>update_one(filter, {"$set": changes})\<close>: the first matching document is updated;
  the result is \<^verbatim>\<open>matched_count\<close> and the collection.
\<close>

fun update_one :: "query \<Rightarrow> (string \<times> bson) list \<Rightarrow> document list \<Rightarrow> nat \<times> document list" where
  "update_one q changes [] = (0, [])"
| "update_one q changes (d # ds) =
     (if matches q d then (1, apply_set changes d # ds)
      else (case update_one q changes ds of (n, ds') \<Rightarrow> (n, d # ds')))"

text \<open>
  \<^verbatim>\<open>delete_one(filter)\<close>: the first matching document is removed; the result is
  \<^verbatim>\<open>deleted_count\<close> and the collection.
\<close>

fun delete_one :: "query \<Rightarrow> document list \<Rightarrow> nat \<times> document list" where
  "delete_one q [] = (0, [])"
| "delete_one q (d # ds) =
     (if matches q d then (1, ds)
      else (case delete_one q ds of (n, ds') \<Rightarrow> (n, d # ds')))"

subsection \<open>The module\<close>

record db =
  announcements_collection :: "document list"
  teachers_collection :: "document list"

text \<open>\<^verbatim>\<open>not x\<close> for the result of \<^verbatim>\<open>find_one\<close>: \<^verbatim>\<open>None\<close> or an empty dictionary.\<close>

definition is_falsy :: "document option \<Rightarrow> bool" where
  "is_falsy x = (case x of None \<Rightarrow> True | Some d \<Rightarrow> d = [])"

definition serialize_announcement :: "document \<Rightarrow> document" where
  "serialize_announcement announcement =
     (case map_of announcement ''_id'' of
        None \<Rightarrow> announcement
      | Some v \<Rightarrow> AList.delete ''_id'' (AList.update ''id'' (Str (str v)) announcement))"

definition get_active_announcements :: "clock \<Rightarrow> db \<Rightarrow> (exn + document list) \<times> db" where
  "get_active_announcements now db =
     (let current_time = isoformat (datetime_now now);
          announcements = find_coll
            (And [Or [Field ''start_date'' (Eq Null),
                      Field ''start_date'' (Lte (Str current_time))],
                  Field ''expiration_date'' (Gte (Str current_time))])
            (announcements_collection db)
      in (Inr (map serialize_announcement announcements), db))"

definition get_all_announcements :: "string \<Rightarrow> db \<Rightarrow> (exn + document list) \<times> db" where
  "get_all_announcements username db =
     (if is_falsy (find_one (Field ''_id'' (Eq (Str username))) (teachers_collection db))
      then (Inl (HTTPException 401 ''Unauthorized''), db)
      else (Inr (map serialize_announcement (find_coll (And []) (announcements_collection db))),
            db))"

text \<open>
  The \<^verbatim>\<open>try\<close> block of \<^verbatim>\<open>create_announcement\<close> and \<^verbatim>\<open>update_announcement\<close> (the same
  text in both): \<open>None\<close> when it falls through, otherwise the exception that leaves it. A
  \<^verbatim>\<open>ValueError\<close> of \<^verbatim>\<open>fromisoformat\<close> is caught and becomes \<^verbatim>\<open>Invalid date format\<close>; the
  \<^verbatim>\<open>HTTPException\<close>s raised inside and a \<^verbatim>\<open>TypeError\<close> of a comparison are not caught.
  \<^verbatim>\<open>if start_date:\<close> is false for \<^verbatim>\<open>None\<close> and for the empty string.
\<close>

definition validate_dates :: "clock \<Rightarrow> string \<Rightarrow> string option \<Rightarrow> exn option" where
  "validate_dates now expiration_date start_date =
     (case fromisoformat (replace_Z expiration_date) of
        None \<Rightarrow> Some (HTTPException 400 ''Invalid date format'')
      | Some exp_date \<Rightarrow>
          (case dt_le exp_date (datetime_now now) of
             Inl e \<Rightarrow> Some e
           | Inr True \<Rightarrow> Some (HTTPException 400 ''Expiration date must be in the future'')
           | Inr False \<Rightarrow>
               (case start_date of
                  None \<Rightarrow> None
                | Some sd \<Rightarrow>
                    (if sd = [] then None
                     else case fromisoformat (replace_Z sd) of
                       None \<Rightarrow> Some (HTTPException 400 ''Invalid date format'')
                     | Some start_dt \<Rightarrow>
                         (case dt_ge start_dt exp_date of
                            Inl e \<Rightarrow> Some e
                          | Inr True \<Rightarrow>
                              Some (HTTPException 400 ''Start date must be before expiration date'')
                          | Inr False \<Rightarrow> None)))))"

text \<open>An \<^verbatim>\<open>Optional[str]\<close> as a value of a document.\<close>

definition opt_str :: "string option \<Rightarrow> bson" where
  "opt_str s = (case s of None \<Rightarrow> Null | Some t \<Rightarrow> Str t)"

text \<open>
  \<open>now1\<close> is the clock read in the validation, \<open>now2\<close> the one read for \<^verbatim>\<open>created_at\<close>,
  and \<open>fresh\<close> the object id the driver generates for the insert.
\<close>

definition create_announcement ::
    "clock \<Rightarrow> clock \<Rightarrow> string \<Rightarrow> string \<Rightarrow> string \<Rightarrow> string \<Rightarrow> string option \<Rightarrow> db
     \<Rightarrow> (exn + document) \<times> db" where
  "create_announcement now1 now2 fresh message expiration_date username start_date db =
     (if is_falsy (find_one (Field ''_id'' (Eq (Str username))) (teachers_collection db))
      then (Inl (HTTPException 401 ''Unauthorized''), db)
      else case validate_dates now1 expiration_date start_date of
        Some e \<Rightarrow> (Inl e, db)
      | None \<Rightarrow>
          (let announcement =
                 [(''message'', Str message),
                  (''start_date'', opt_str start_date),
                  (''expiration_date'', Str expiration_date),
                  (''created_by'', Str username),
                  (''created_at'', Str (isoformat (datetime_now now2)))]
           in case insert_one fresh announcement (announcements_collection db) of
                Inl e \<Rightarrow> (Inl e, db)
              | Inr (inserted_id, announcement', coll') \<Rightarrow>
                  (Inr (AList.update ''id'' (Str (str inserted_id)) announcement'),
                   db\<lparr>announcements_collection := coll'\<rparr>)))"

text \<open>
  \<open>now1\<close> is the clock read in the validation, \<open>now2\<close> the one read for \<^verbatim>\<open>updated_at\<close>.
  The result is \<^verbatim>\<open>serialize_announcement\<close> of what \<^verbatim>\<open>find_one\<close> reads back, which is
  \<^verbatim>\<open>None\<close> when it finds nothing.
\<close>

definition update_announcement ::
    "clock \<Rightarrow> clock \<Rightarrow> string \<Rightarrow> string \<Rightarrow> string \<Rightarrow> string \<Rightarrow> string option \<Rightarrow> db
     \<Rightarrow> (exn + document option) \<times> db" where
  "update_announcement now1 now2 announcement_id message expiration_date username start_date db =
     (if is_falsy (find_one (Field ''_id'' (Eq (Str username))) (teachers_collection db))
      then (Inl (HTTPException 401 ''Unauthorized''), db)
      else case validate_dates now1 expiration_date start_date of
        Some e \<Rightarrow> (Inl e, db)
      | None \<Rightarrow>
          (case ObjectId announcement_id of
             None \<Rightarrow> (Inl (HTTPException 400 ''Invalid announcement ID''), db)
           | Some obj_id \<Rightarrow>
               (case update_one (Field ''_id'' (Eq (Oid obj_id)))
                       [(''message'', Str message),
                        (''start_date'', opt_str start_date),
                        (''expiration_date'', Str expiration_date),
                        (''updated_by'', Str username),
                        (''updated_at'', Str (isoformat (datetime_now now2)))]
                       (announcements_collection db) of
                  (matched_count, coll') \<Rightarrow>
                    (if matched_count = 0
                     then (Inl (HTTPException 404 ''Announcement not found''),
                           db\<lparr>announcements_collection := coll'\<rparr>)
                     else (Inr (map_option serialize_announcement
                                  (find_one (Field ''_id'' (Eq (Oid obj_id))) coll')),
                           db\<lparr>announcements_collection := coll'\<rparr>)))))"

definition delete_announcement :: "string \<Rightarrow> string \<Rightarrow> db \<Rightarrow> (exn + document) \<times> db" where
  "delete_announcement announcement_id username db =
     (if is_falsy (find_one (Field ''_id'' (Eq (Str username))) (teachers_collection db))
      then (Inl (HTTPException 401 ''Unauthorized''), db)
      else case ObjectId announcement_id of
        None \<Rightarrow> (Inl (HTTPException 400 ''Invalid announcement ID''), db)
      | Some obj_id \<Rightarrow>
          (case delete_one (Field ''_id'' (Eq (Oid obj_id))) (announcements_collection db) of
             (deleted_count, coll') \<Rightarrow>
               (if deleted_count = 0
                then (Inl (HTTPException 404 ''Announcement not found''),
                      db\<lparr>announcements_collection := coll'\<rparr>)
                else (Inr [(''message'', Str ''Announcement deleted successfully'')],
                      db\<lparr>announcements_collection := coll'\<rparr>))))"

subsection \<open>Notions of the specification\<close>

text \<open>
  A username resolves to an existing teacher when the teachers collection holds a record
  with that \<^verbatim>\<open>_id\<close>.
\<close>

definition known_teacher :: "db \<Rightarrow> string \<Rightarrow> bool" where
  "known_teacher db username =
     list_ex (\<lambda>t. map_of t ''_id'' = Some (Str username)) (teachers_collection db)"

text \<open>
  The timestamp a date string stands for: the string is parsed as the service parses it,
  a trailing \<^verbatim>\<open>Z\<close> read as \<^verbatim>\<open>+00:00\<close>.
\<close>

definition parse_timestamp :: "string \<Rightarrow> datetime option" where
  "parse_timestamp s = fromisoformat (replace_Z s)"

text \<open>
  The specification's predicate: an announcement is active at time \<open>T\<close> iff its start date
  is absent or at most \<open>T\<close>, and its expiration date is at least \<open>T\<close>, as timestamps.
\<close>

definition is_active :: "datetime \<Rightarrow> document \<Rightarrow> bool" where
  "is_active T a =
     ((case map_of a ''start_date'' of
         None \<Rightarrow> True
       | Some Null \<Rightarrow> True
       | Some (Str s) \<Rightarrow>
           (case parse_timestamp s of None \<Rightarrow> False | Some st \<Rightarrow> dt_le st T = Inr True)
       | Some (Oid h) \<Rightarrow> False)
      \<and> (case map_of a ''expiration_date'' of
            Some (Str s) \<Rightarrow>
              (case parse_timestamp s of None \<Rightarrow> False | Some e \<Rightarrow> dt_ge e T = Inr True)
          | _ \<Rightarrow> False))"


text \<open>
  The same predicate on the stored strings: the dates are compared, as strings, with the
  current time as \<^verbatim>\<open>isoformat\<close> prints it.
\<close>

definition listed_at :: "string \<Rightarrow> document \<Rightarrow> bool" where
  "listed_at current_time a =
     ((case map_of a ''start_date'' of
         None \<Rightarrow> True
       | Some Null \<Rightarrow> True
       | Some (Str s) \<Rightarrow> str_le s current_time
       | Some (Oid h) \<Rightarrow> False)
      \<and> (case map_of a ''expiration_date'' of
            Some (Str s) \<Rightarrow> str_le current_time s
          | _ \<Rightarrow> False))"

subsection \<open>A small database\<close>

definition teachers0 :: "document list" where
  "teachers0 = [[(''_id'', Str ''mrodriguez''), (''display_name'', Str ''Ms. Rodriguez'')]]"

definition oid1 :: string where
  "oid1 = ''64b7f0c2a1d3e4f5a6b7c8d9''"

definition ann1 :: document where
  "ann1 = [(''_id'', Oid oid1), (''message'', Str ''Welcome back''),
           (''start_date'', Null), (''expiration_date'', Str ''2030-06-30T23:59:59''),
           (''created_by'', Str ''mrodriguez''), (''created_at'', Str ''2029-09-01T08:00:00'')]"

definition db0 :: db where
  "db0 = \<lparr>announcements_collection = [ann1], teachers_collection = teachers0\<rparr>"

text \<open>Two readings of the clock: 2029-09-01T08:00:00 and 2030-01-01T08:00:00.\<close>

definition clock_2029 :: clock where
  "clock_2029 = \<lparr>c_year = 2029, c_month = 9, c_day = 1, c_hour = 8, c_minute = 0,
                  c_second = 0, c_microsecond = 0\<rparr>"

definition clock_2030 :: clock where
  "clock_2030 = \<lparr>c_year = 2030, c_month = 1, c_day = 1, c_hour = 8, c_minute = 0,
                  c_second = 0, c_microsecond = 0\<rparr>"

text \<open>
  Documents of a collection are told apart by \<^verbatim>\<open>_id\<close>, and MongoDB keeps the \<^verbatim>\<open>_id\<close>s of
  a collection distinct.
\<close>

definition has_id :: "bson \<Rightarrow> document \<Rightarrow> bool" where
  "has_id v d = (map_of d ''_id'' = Some v)"

definition unique_ids :: "document list \<Rightarrow> bool" where
  "unique_ids coll = distinct (map (\<lambda>d. map_of d ''_id'') coll)"

definition oid2 :: string where
  "oid2 = ''64b7f0c2a1d3e4f5a6b7c8da''"

definition ann2 :: document where
  "ann2 = [(''_id'', Oid oid2), (''message'', Str ''Exam week''),
           (''start_date'', Null), (''expiration_date'', Str ''2030-01-01 12:00:00''),
           (''created_by'', Str ''mrodriguez''), (''created_at'', Str ''2029-09-01T08:00:00'')]"

text \<open>Dates and documents of the examples below.\<close>

definition exp_june :: datetime where
  "exp_june = \<lparr>year = 2030, month = 6, day = 30, hour = 23, minute = 59, second = 59,
               microsecond = 0, utcoffset = None\<rparr>"

definition start_july :: datetime where
  "start_july = \<lparr>year = 2030, month = 7, day = 1, hour = 0, minute = 0, second = 0,
               microsecond = 0, utcoffset = None\<rparr>"

definition exp_2000 :: datetime where
  "exp_2000 = \<lparr>year = 2000, month = 1, day = 1, hour = 0, minute = 0, second = 0,
               microsecond = 0, utcoffset = None\<rparr>"

definition start_2001 :: datetime where
  "start_2001 = \<lparr>year = 2001, month = 1, day = 1, hour = 0, minute = 0, second = 0,
               microsecond = 0, utcoffset = None\<rparr>"

definition ann3 :: document where
  "ann3 = [(''_id'', Oid oid2), (''message'', Str ''M''), (''start_date'', Str []),
           (''expiration_date'', Str ''2030-06-30T23:59:59''),
           (''created_by'', Str ''mrodriguez''), (''created_at'', Str ''2029-09-01T08:00:00'')]"

definition clock_2031 :: clock where
  "clock_2031 = \<lparr>c_year = 2031, c_month = 1, c_day = 1, c_hour = 8, c_minute = 0,
                  c_second = 0, c_microsecond = 0\<rparr>"

definition ann1e :: document where
  "ann1e = [(''_id'', Oid oid1), (''message'', Str ''M''), (''start_date'', Str []),
            (''expiration_date'', Str ''2030-06-30T23:59:59''),
            (''created_by'', Str ''mrodriguez''), (''created_at'', Str ''2029-09-01T08:00:00''),
            (''updated_by'', Str ''mrodriguez''), (''updated_at'', Str ''2029-09-01T08:00:00'')]"

section \<open>Properties\<close>

subsection \<open>Lookups by \<^verbatim>\<open>_id\<close>\<close>

lemma cond_holds_Eq_Str [simp]: "cond_holds (Eq (Str u)) x = (x = Some (Str u))"
  by (cases x) auto

lemma cond_holds_Eq_Oid [simp]: "cond_holds (Eq (Oid h)) x = (x = Some (Oid h))"
  by (cases x) auto

lemma teacher_lookup:
  "is_falsy (find_one (Field ''_id'' (Eq (Str u))) (teachers_collection db))
   = (\<not> known_teacher db u)"
proof -
  have "is_falsy (List.find (matches (Field ''_id'' (Eq (Str u)))) ts)
        = (\<not> list_ex (\<lambda>t. map_of t ''_id'' = Some (Str u)) ts)" for ts
    by (induction ts) (auto simp: is_falsy_def)
  then show ?thesis by (simp add: find_one_def known_teacher_def)
qed

lemma known_teacher_db0: "known_teacher db0 ''mrodriguez''"
  by (simp add: known_teacher_def db0_def teachers0_def)

lemma known_teacher_not_falsy:
  "known_teacher db u \<Longrightarrow>
   is_falsy (find_one (Field ''_id'' (Eq (Str u))) (teachers_collection db)) = False"
  by (simp add: teacher_lookup)

lemma matches_id_Oid: "matches (Field ''_id'' (Eq (Oid h))) = has_id (Oid h)"
  by (rule ext) (simp add: has_id_def)

lemma delete_one_count: "fst (delete_one q coll) = (if list_ex (matches q) coll then 1 else 0)"
  by (induction coll) (auto split: prod.splits)

lemma delete_one_none: "\<not> list_ex (matches q) coll \<Longrightarrow> snd (delete_one q coll) = coll"
  by (induction coll) (auto split: prod.splits)

lemma delete_one_length:
  "list_ex (matches q) coll \<Longrightarrow> Suc (length (snd (delete_one q coll))) = length coll"
  by (induction coll) (auto split: prod.splits)

lemma delete_one_subset: "set (snd (delete_one q coll)) \<subseteq> set coll"
  by (induction coll) (auto split: prod.splits)

lemma delete_one_gone:
  assumes "unique_ids coll"
  shows "\<not> list_ex (has_id (Oid h)) (snd (delete_one (Field ''_id'' (Eq (Oid h))) coll))"
  using assms
proof (induction coll)
  case Nil
  then show ?case by simp
next
  case (Cons d ds)
  show ?case
  proof (cases "has_id (Oid h) d")
    case True
    then have "map_of d ''_id'' = Some (Oid h)" by (simp add: has_id_def)
    with Cons.prems have "\<forall>x\<in>set ds. map_of x ''_id'' \<noteq> Some (Oid h)"
      by (auto simp: unique_ids_def image_iff)
    then show ?thesis using True by (auto simp: has_id_def list_ex_iff)
  next
    case False
    with Cons show ?thesis by (auto simp: has_id_def unique_ids_def split: prod.splits)
  qed
qed

subsection \<open>Evaluating dates and identifiers\<close>

lemmas parse_defs = fromisoformat_def find_isoformat_datetime_separator_def
  parse_isoformat_date_def parse_isoformat_time_def parse_hh_mm_ss_ff_def after_component_def
  parse_fraction_def parse_digits_def char_at_def is_digit_def digit_val_def is_tz_start_def
  separator_width_def replace_Z_def days_in_month_def is_leap_def Let_def

lemmas clock_defs = datetime_now_def dt_le_def dt_ge_def wall_micros_def days_before_year_def
  days_before_month_def days_in_month_def is_leap_def clock_2029_def clock_2030_def


lemma validate_future_expiration: "validate_dates clock_2029 ''2030-06-30T23:59:59'' None = None"
  by (simp add: validate_dates_def parse_defs clock_defs)

lemma validate_start_before: "validate_dates clock_2029 ''2030-06-30T23:59:59'' (Some ''2030-06-01'') = None"
  by (simp add: validate_dates_def parse_defs clock_defs)


lemma ObjectId_oid1: "ObjectId oid1 = Some oid1"
  by (simp add: ObjectId_def oid1_def is_hex_def is_digit_def lower_hex_def is_space_def)

lemma ObjectId_upper: "ObjectId ''64B7F0C2A1D3E4F5A6B7C8D9'' = Some oid1"
  by (simp add: ObjectId_def oid1_def is_hex_def is_digit_def lower_hex_def is_space_def)

subsection \<open>Deleting\<close>

lemma delete_announcement_known:
  assumes "known_teacher db username" and "ObjectId announcement_id = Some obj_id"
  shows "delete_announcement announcement_id username db =
     (if list_ex (has_id (Oid obj_id)) (announcements_collection db)
      then (Inr [(''message'', Str ''Announcement deleted successfully'')],
            db\<lparr>announcements_collection :=
                 snd (delete_one (Field ''_id'' (Eq (Oid obj_id))) (announcements_collection db))\<rparr>)
      else (Inl (HTTPException 404 ''Announcement not found''), db))"
proof -
  let ?q = "Field ''_id'' (Eq (Oid obj_id))"
  let ?coll = "announcements_collection db"
  obtain n coll' where d: "delete_one ?q ?coll = (n, coll')" by (cases "delete_one ?q ?coll")
  have n: "n = (if list_ex (has_id (Oid obj_id)) ?coll then 1 else 0)"
    using delete_one_count [of ?q ?coll] d by (simp add: matches_id_Oid)
  have c: "\<not> list_ex (has_id (Oid obj_id)) ?coll \<Longrightarrow> coll' = ?coll"
    using delete_one_none [of ?q ?coll] d by (simp add: matches_id_Oid)
  show ?thesis
    using assms d n c by (simp add: delete_announcement_def known_teacher_not_falsy)
qed

lemma unique_ids_db0: "unique_ids (announcements_collection db0)"
  by (simp add: unique_ids_def db0_def)

subsection \<open>Printing the clock\<close>

lemma zero_pad_2:
  "zero_pad 2 n = [''0123456789'' ! (n div 10 mod 10), ''0123456789'' ! (n mod 10)]"
proof -
  have e: "(2::nat) = Suc (Suc 0)" by simp
  show ?thesis unfolding e by simp
qed

lemma zero_pad_4:
  "zero_pad 4 n = [''0123456789'' ! (n div 10 div 10 div 10 mod 10),
                   ''0123456789'' ! (n div 10 div 10 mod 10),
                   ''0123456789'' ! (n div 10 mod 10), ''0123456789'' ! (n mod 10)]"
proof -
  have e: "(4::nat) = Suc (Suc (Suc (Suc 0)))" by simp
  show ?thesis unfolding e by simp
qed

lemma zero_pad_6:
  "zero_pad 6 n = [''0123456789'' ! (n div 10 div 10 div 10 div 10 div 10 mod 10),
                   ''0123456789'' ! (n div 10 div 10 div 10 div 10 mod 10),
                   ''0123456789'' ! (n div 10 div 10 div 10 mod 10),
                   ''0123456789'' ! (n div 10 div 10 mod 10),
                   ''0123456789'' ! (n div 10 mod 10), ''0123456789'' ! (n mod 10)]"
proof -
  have e: "(6::nat) = Suc (Suc (Suc (Suc (Suc (Suc 0)))))" by simp
  show ?thesis unfolding e by simp
qed

lemma isoformat_clock_2029: "isoformat (datetime_now clock_2029) = ''2029-09-01T08:00:00''"
  by (simp add: isoformat_def datetime_now_def clock_2029_def zero_pad_2 zero_pad_4)

lemma isoformat_clock_2030: "isoformat (datetime_now clock_2030) = ''2030-01-01T08:00:00''"
  by (simp add: isoformat_def datetime_now_def clock_2030_def zero_pad_2 zero_pad_4)

subsection \<open>Creating\<close>

lemma find_one_None: "(find_one q coll = None) = (\<not> list_ex (matches q) coll)"
  by (auto simp: find_one_def find_None_iff list_ex_iff)

lemma create_announcement_known:
  assumes "known_teacher db username"
    and "validate_dates now1 expiration_date start_date = None"
  shows "create_announcement now1 now2 fresh message expiration_date username start_date db =
     (if list_ex (has_id (Oid fresh)) (announcements_collection db)
      then (Inl DuplicateKeyError, db)
      else (Inr [(''message'', Str message),
                 (''start_date'', opt_str start_date),
                 (''expiration_date'', Str expiration_date),
                 (''created_by'', Str username),
                 (''created_at'', Str (isoformat (datetime_now now2))),
                 (''_id'', Oid fresh),
                 (''id'', Str fresh)],
            db\<lparr>announcements_collection := announcements_collection db @
                 [[(''_id'', Oid fresh),
                   (''message'', Str message),
                   (''start_date'', opt_str start_date),
                   (''expiration_date'', Str expiration_date),
                   (''created_by'', Str username),
                   (''created_at'', Str (isoformat (datetime_now now2)))]]\<rparr>))"
  using assms
  by (simp add: create_announcement_def known_teacher_not_falsy insert_one_def find_one_None
        matches_id_Oid Let_def)

lemma create_announcement_Inr:
  assumes "create_announcement now1 now2 fresh message expiration_date username start_date db
           = (Inr r, db')"
  shows "known_teacher db username \<and> validate_dates now1 expiration_date start_date = None
         \<and> \<not> list_ex (has_id (Oid fresh)) (announcements_collection db)"
proof -
  have kt: "known_teacher db username"
    using assms by (auto simp: create_announcement_def teacher_lookup split: if_splits)
  have vd: "validate_dates now1 expiration_date start_date = None"
    using assms kt
    by (cases "validate_dates now1 expiration_date start_date")
       (auto simp: create_announcement_def known_teacher_not_falsy)
  show ?thesis
    using assms kt vd create_announcement_known [OF kt vd, of now2 fresh message]
    by (auto split: if_splits)
qed

lemma validate_Z: "validate_dates now ''2000-01-01T00:00:00Z'' start_date = Some TypeError"
  by (simp add: validate_dates_def parse_defs dt_le_def datetime_now_def)

lemma aware_expiration_type_error:
  assumes "fromisoformat (replace_Z expiration_date) = Some d" and "utcoffset d = Some off"
  shows "validate_dates now expiration_date start_date = Some TypeError"
  using assms by (simp add: validate_dates_def dt_le_def datetime_now_def)

lemma naive_past_expiration:
  assumes "fromisoformat (replace_Z expiration_date) = Some d" and "utcoffset d = None"
    and "wall_micros d \<le> wall_micros (datetime_now now)"
  shows "validate_dates now expiration_date start_date
         = Some (HTTPException 400 ''Expiration date must be in the future'')"
  using assms by (simp add: validate_dates_def dt_le_def datetime_now_def)

subsection \<open>Updating\<close>

lemma update_one_count: "fst (update_one q ch coll) = (if list_ex (matches q) coll then 1 else 0)"
  by (induction coll) (auto split: prod.splits)

lemma update_one_none: "\<not> list_ex (matches q) coll \<Longrightarrow> snd (update_one q ch coll) = coll"
  by (induction coll) (auto split: prod.splits)

lemma update_one_then_find:
  assumes keep: "\<And>d. matches q (apply_set ch d) = matches q d"
    and ex: "list_ex (matches q) coll"
  shows "\<exists>i<length coll. matches q (coll ! i)
           \<and> snd (update_one q ch coll) = coll[i := apply_set ch (coll ! i)]
           \<and> find_one q (snd (update_one q ch coll)) = Some (apply_set ch (coll ! i))"
  using ex
proof (induction coll)
  case Nil
  then show ?case by simp
next
  case (Cons d ds)
  show ?case
  proof (cases "matches q d")
    case True
    then have "matches q ((d # ds) ! 0)
        \<and> snd (update_one q ch (d # ds)) = (d # ds)[0 := apply_set ch ((d # ds) ! 0)]
        \<and> find_one q (snd (update_one q ch (d # ds))) = Some (apply_set ch ((d # ds) ! 0))"
      by (simp add: find_one_def keep)
    then show ?thesis by blast
  next
    case False
    with Cons.prems have "list_ex (matches q) ds" by simp
    from Cons.IH [OF this] obtain i where i: "i < length ds" "matches q (ds ! i)"
        "snd (update_one q ch ds) = ds[i := apply_set ch (ds ! i)]"
        "find_one q (snd (update_one q ch ds)) = Some (apply_set ch (ds ! i))"
      by blast
    have "Suc i < length (d # ds) \<and> matches q ((d # ds) ! Suc i)
        \<and> snd (update_one q ch (d # ds)) = (d # ds)[Suc i := apply_set ch ((d # ds) ! Suc i)]
        \<and> find_one q (snd (update_one q ch (d # ds))) = Some (apply_set ch ((d # ds) ! Suc i))"
      using i False by (auto simp: find_one_def split: prod.splits)
    then show ?thesis by blast
  qed
qed

lemma map_of_apply_set_changes:
  "map_of (apply_set [(''message'', m), (''start_date'', s), (''expiration_date'', e),
                      (''updated_by'', u), (''updated_at'', a)] d) k =
     (if k = ''updated_at'' then Some a else if k = ''updated_by'' then Some u
      else if k = ''expiration_date'' then Some e else if k = ''start_date'' then Some s
      else if k = ''message'' then Some m else map_of d k)"
  by (simp add: apply_set_def update_conv')

lemma update_announcement_known:
  assumes "known_teacher db username"
    and "validate_dates now1 expiration_date start_date = None"
    and "ObjectId announcement_id = Some obj_id"
  shows "\<not> list_ex (has_id (Oid obj_id)) (announcements_collection db) \<longrightarrow>
           update_announcement now1 now2 announcement_id message expiration_date username
             start_date db = (Inl (HTTPException 404 ''Announcement not found''), db)"
    and "list_ex (has_id (Oid obj_id)) (announcements_collection db) \<longrightarrow>
           (\<exists>i < length (announcements_collection db).
              has_id (Oid obj_id) (announcements_collection db ! i)
              \<and> find_one (Field ''_id'' (Eq (Oid obj_id)))
                    ((announcements_collection db)
                       [i := apply_set [(''message'', Str message),
                                        (''start_date'', opt_str start_date),
                                        (''expiration_date'', Str expiration_date),
                                        (''updated_by'', Str username),
                                        (''updated_at'', Str (isoformat (datetime_now now2)))]
                                       (announcements_collection db ! i)])
                  = Some (apply_set [(''message'', Str message),
                                        (''start_date'', opt_str start_date),
                                        (''expiration_date'', Str expiration_date),
                                        (''updated_by'', Str username),
                                        (''updated_at'', Str (isoformat (datetime_now now2)))]
                                       (announcements_collection db ! i))
              \<and> update_announcement now1 now2 announcement_id message expiration_date username
                  start_date db
                = (Inr (Some (serialize_announcement
                     (apply_set [(''message'', Str message),
                                 (''start_date'', opt_str start_date),
                                 (''expiration_date'', Str expiration_date),
                                 (''updated_by'', Str username),
                                 (''updated_at'', Str (isoformat (datetime_now now2)))]
                                (announcements_collection db ! i)))),
                   db\<lparr>announcements_collection := (announcements_collection db)
                       [i := apply_set [(''message'', Str message),
                                        (''start_date'', opt_str start_date),
                                        (''expiration_date'', Str expiration_date),
                                        (''updated_by'', Str username),
                                        (''updated_at'', Str (isoformat (datetime_now now2)))]
                                       (announcements_collection db ! i)]\<rparr>))"
proof -
  let ?q = "Field ''_id'' (Eq (Oid obj_id))"
  let ?ch = "[(''message'', Str message), (''start_date'', opt_str start_date),
              (''expiration_date'', Str expiration_date), (''updated_by'', Str username),
              (''updated_at'', Str (isoformat (datetime_now now2)))]"
  let ?coll = "announcements_collection db"
  obtain n coll' where u: "update_one ?q ?ch ?coll = (n, coll')"
    by (cases "update_one ?q ?ch ?coll")
  have n: "n = (if list_ex (has_id (Oid obj_id)) ?coll then 1 else 0)"
    using update_one_count [of ?q ?ch ?coll] u by (simp add: matches_id_Oid)
  have unfold: "update_announcement now1 now2 announcement_id message expiration_date username
             start_date db =
     (if n = 0 then (Inl (HTTPException 404 ''Announcement not found''),
                     db\<lparr>announcements_collection := coll'\<rparr>)
      else (Inr (map_option serialize_announcement (find_one ?q coll')),
            db\<lparr>announcements_collection := coll'\<rparr>))"
    using assms u by (simp add: update_announcement_def known_teacher_not_falsy)
  show "\<not> list_ex (has_id (Oid obj_id)) ?coll \<longrightarrow>
           update_announcement now1 now2 announcement_id message expiration_date username
             start_date db = (Inl (HTTPException 404 ''Announcement not found''), db)"
    using unfold n update_one_none [of ?q ?coll ?ch] u by (simp add: matches_id_Oid)
  have keep: "\<And>d. matches ?q (apply_set ?ch d) = matches ?q d"
    by (simp add: map_of_apply_set_changes)
  show "list_ex (has_id (Oid obj_id)) ?coll \<longrightarrow>
           (\<exists>i < length ?coll. has_id (Oid obj_id) (?coll ! i)
              \<and> find_one ?q (?coll [i := apply_set ?ch (?coll ! i)])
                  = Some (apply_set ?ch (?coll ! i))
              \<and> update_announcement now1 now2 announcement_id message expiration_date username
                  start_date db
                = (Inr (Some (serialize_announcement (apply_set ?ch (?coll ! i)))),
                   db\<lparr>announcements_collection := ?coll [i := apply_set ?ch (?coll ! i)]\<rparr>))"
  proof
    assume ex: "list_ex (has_id (Oid obj_id)) ?coll"
    then have "list_ex (matches ?q) ?coll" by (simp add: matches_id_Oid)
    from update_one_then_find [of ?q ?ch ?coll, OF keep this]
    obtain i where i: "i < length ?coll" "matches ?q (?coll ! i)"
        "snd (update_one ?q ?ch ?coll) = ?coll[i := apply_set ?ch (?coll ! i)]"
        "find_one ?q (snd (update_one ?q ?ch ?coll)) = Some (apply_set ?ch (?coll ! i))"
      by blast
    have "has_id (Oid obj_id) (?coll ! i)" using i(2) by (simp add: has_id_def)
    moreover have "find_one ?q (?coll [i := apply_set ?ch (?coll ! i)])
                  = Some (apply_set ?ch (?coll ! i))"
      using i(3,4) by simp
    moreover have "update_announcement now1 now2 announcement_id message expiration_date username
                  start_date db
                = (Inr (Some (serialize_announcement (apply_set ?ch (?coll ! i)))),
                   db\<lparr>announcements_collection := ?coll [i := apply_set ?ch (?coll ! i)]\<rparr>)"
      using unfold n ex i(3,4) u by simp
    ultimately show "\<exists>i < length ?coll. has_id (Oid obj_id) (?coll ! i)
              \<and> find_one ?q (?coll [i := apply_set ?ch (?coll ! i)])
                  = Some (apply_set ?ch (?coll ! i))
              \<and> update_announcement now1 now2 announcement_id message expiration_date username
                  start_date db
                = (Inr (Some (serialize_announcement (apply_set ?ch (?coll ! i)))),
                   db\<lparr>announcements_collection := ?coll [i := apply_set ?ch (?coll ! i)]\<rparr>)"
      using i(1) by blast
  qed
qed

lemma update_announcement_Inr:
  assumes "update_announcement now1 now2 announcement_id message expiration_date username
             start_date db = (Inr r, db')"
  shows "known_teacher db username \<and> validate_dates now1 expiration_date start_date = None
         \<and> (\<exists>obj_id. ObjectId announcement_id = Some obj_id
               \<and> list_ex (has_id (Oid obj_id)) (announcements_collection db))"
proof -
  have kt: "known_teacher db username"
    using assms by (auto simp: update_announcement_def teacher_lookup split: if_splits)
  have vd: "validate_dates now1 expiration_date start_date = None"
    using assms kt
    by (cases "validate_dates now1 expiration_date start_date")
       (auto simp: update_announcement_def known_teacher_not_falsy)
  obtain obj_id where oi: "ObjectId announcement_id = Some obj_id"
    using assms kt vd
    by (cases "ObjectId announcement_id")
       (auto simp: update_announcement_def known_teacher_not_falsy)
  have "list_ex (has_id (Oid obj_id)) (announcements_collection db)"
    using assms update_announcement_known(1) [OF kt vd oi, of now2 message] by auto
  then show ?thesis using kt vd oi by simp
qed

lemma db0_announcements: "announcements_collection db0 = [ann1]"
  by (simp add: db0_def)

lemma db0_teachers: "teachers_collection db0 = teachers0"
  by (simp add: db0_def)

lemma map_of_serialize:
  "map_of (serialize_announcement d) k =
     (case map_of d ''_id'' of
        None \<Rightarrow> map_of d k
      | Some v \<Rightarrow> if k = ''_id'' then None else if k = ''id'' then Some (Str (str v))
                  else map_of d k)"
  by (simp add: serialize_announcement_def delete_conv' update_conv' split: option.splits)

lemma find_one_Nil: "find_one q [] = None"
  by (simp add: find_one_def)

lemma find_one_Cons: "find_one q (d # ds) = (if matches q d then Some d else find_one q ds)"
  by (simp add: find_one_def)

lemma update_db0:
  "update_announcement clock_2029 clock_2030 oid1 ''Moved to Friday'' ''2030-06-30T23:59:59''
     ''mrodriguez'' (Some ''2030-06-01'') db0
   = (Inr (Some [(''message'', Str ''Moved to Friday''), (''start_date'', Str ''2030-06-01''),
                 (''expiration_date'', Str ''2030-06-30T23:59:59''),
                 (''created_by'', Str ''mrodriguez''),
                 (''created_at'', Str ''2029-09-01T08:00:00''),
                 (''updated_by'', Str ''mrodriguez''),
                 (''updated_at'', Str ''2030-01-01T08:00:00''),
                 (''id'', Str oid1)]),
      db0\<lparr>announcements_collection :=
           [[(''_id'', Oid oid1), (''message'', Str ''Moved to Friday''),
             (''start_date'', Str ''2030-06-01''),
             (''expiration_date'', Str ''2030-06-30T23:59:59''),
             (''created_by'', Str ''mrodriguez''),
             (''created_at'', Str ''2029-09-01T08:00:00''),
             (''updated_by'', Str ''mrodriguez''),
             (''updated_at'', Str ''2030-01-01T08:00:00'')]]\<rparr>)"
  using known_teacher_not_falsy [OF known_teacher_db0]
  by (simp add: update_announcement_def validate_start_before
        ObjectId_oid1 db0_announcements ann1_def apply_set_def opt_str_def
        isoformat_clock_2030 find_one_Cons serialize_announcement_def)

subsection \<open>Listing\<close>

lemma active_query_listed_at:
  "matches (And [Or [Field ''start_date'' (Eq Null), Field ''start_date'' (Lte (Str t))],
                 Field ''expiration_date'' (Gte (Str t))]) = listed_at t"
proof (rule ext)
  fix a
  have s: "(cond_holds (Eq Null) x \<or> cond_holds (Lte (Str t)) x)
           = (case x of None \<Rightarrow> True | Some Null \<Rightarrow> True | Some (Str s) \<Rightarrow> str_le s t
              | Some (Oid h) \<Rightarrow> False)" for x
    by (cases x; cases "the x") auto
  have e: "cond_holds (Gte (Str t)) x
           = (case x of Some (Str s) \<Rightarrow> str_le t s | _ \<Rightarrow> False)" for x
    by (cases x; cases "the x") auto
  show "matches (And [Or [Field ''start_date'' (Eq Null), Field ''start_date'' (Lte (Str t))],
                 Field ''expiration_date'' (Gte (Str t))]) a = listed_at t a"
    by (simp add: listed_at_def s e)
qed

lemma validate_space_separator:
  "validate_dates clock_2029 ''2030-01-01 12:00:00'' None = None"
  by (simp add: validate_dates_def parse_defs clock_defs)

lemma is_active_ann2: "is_active (datetime_now clock_2030) ann2"
  by (simp add: is_active_def ann2_def parse_timestamp_def parse_defs clock_defs)

lemma is_active_ann1: "is_active (datetime_now clock_2030) ann1"
  by (simp add: is_active_def ann1_def parse_timestamp_def parse_defs clock_defs)

lemma create_ann2:
  "create_announcement clock_2029 clock_2029 oid2 ''Exam week'' ''2030-01-01 12:00:00''
     ''mrodriguez'' None db0
   = (Inr (tl ann2 @ [(''_id'', Oid oid2), (''id'', Str oid2)]),
      db0\<lparr>announcements_collection := [ann1, ann2]\<rparr>)"
  using create_announcement_known [OF known_teacher_db0 validate_space_separator,
          of clock_2029 oid2 "''Exam week''"]
  by (simp add: db0_announcements ann1_def ann2_def has_id_def oid1_def oid2_def opt_str_def
        isoformat_clock_2029)

subsection \<open>Validating\<close>

lemma create_announcement_invalid:
  "known_teacher db username \<Longrightarrow> validate_dates now1 expiration_date start_date = Some e \<Longrightarrow>
   create_announcement now1 now2 fresh message expiration_date username start_date db = (Inl e, db)"
  by (simp add: create_announcement_def known_teacher_not_falsy)

lemma update_announcement_invalid:
  "known_teacher db username \<Longrightarrow> validate_dates now1 expiration_date start_date = Some e \<Longrightarrow>
   update_announcement now1 now2 announcement_id message expiration_date username start_date db
     = (Inl e, db)"
  by (simp add: update_announcement_def known_teacher_not_falsy)

lemma validate_dates_unparsed_expiration:
  "fromisoformat (replace_Z expiration_date) = None \<Longrightarrow>
   validate_dates now expiration_date start_date = Some (HTTPException 400 ''Invalid date format'')"
  by (simp add: validate_dates_def)

lemma validate_dates_start:
  assumes "fromisoformat (replace_Z expiration_date) = Some exp_date"
    and "utcoffset exp_date = None"
    and "wall_micros (datetime_now now) < wall_micros exp_date"
    and "sd \<noteq> []"
  shows "validate_dates now expiration_date (Some sd) =
     (case fromisoformat (replace_Z sd) of
        None \<Rightarrow> Some (HTTPException 400 ''Invalid date format'')
      | Some start_dt \<Rightarrow>
          (case utcoffset start_dt of
             Some off \<Rightarrow> Some TypeError
           | None \<Rightarrow>
               if wall_micros exp_date \<le> wall_micros start_dt
               then Some (HTTPException 400 ''Start date must be before expiration date'')
               else None))"
  using assms
  by (simp add: validate_dates_def dt_le_def dt_ge_def datetime_now_def
           split: option.splits)

lemma parse_exp_june: "fromisoformat (replace_Z ''2030-06-30T23:59:59'') = Some exp_june"
  by (simp add: parse_defs exp_june_def)

lemma parse_start_july: "fromisoformat (replace_Z ''2030-07-01'') = Some start_july"
  by (simp add: parse_defs start_july_def)

lemma parse_soon: "fromisoformat (replace_Z ''soon'') = None"
  by (simp add: parse_defs)

lemma june_facts:
  "utcoffset exp_june = None" "utcoffset start_july = None"
  "wall_micros (datetime_now clock_2029) < wall_micros exp_june"
  "wall_micros exp_june \<le> wall_micros start_july"
  by (simp_all add: exp_june_def start_july_def clock_defs)

lemma parse_exp_2000:
  "fromisoformat (replace_Z ''2000-01-01T00:00:00'') = Some exp_2000"
  "utcoffset exp_2000 = None"
  "wall_micros exp_2000 \<le> wall_micros (datetime_now clock_2030)"
  by (simp_all add: parse_defs exp_2000_def clock_defs)

lemma parse_tomorrow: "fromisoformat (replace_Z ''tomorrow'') = None"
  by (simp add: parse_defs)

lemma validate_past_expiration_late_start:
  "validate_dates clock_2030 ''2000-01-01T00:00:00'' (Some ''2001-01-01T00:00:00'')
   = Some (HTTPException 400 ''Expiration date must be in the future'')"
  by (simp add: validate_dates_def parse_defs clock_defs)

lemma validate_empty_start:
  "validate_dates now expiration_date (Some []) = validate_dates now expiration_date None"
  by (simp add: validate_dates_def split: option.splits sum.splits bool.splits)

lemma get_active_listed:
  "fst (get_active_announcements now db)
   = Inr (map serialize_announcement
            (filter (listed_at (isoformat (datetime_now now))) (announcements_collection db)))"
  by (simp add: get_active_announcements_def find_coll_def active_query_listed_at Let_def)

lemma create_ann3:
  "create_announcement clock_2029 clock_2029 oid2 ''M'' ''2030-06-30T23:59:59''
         ''mrodriguez'' (Some []) db0
   = (Inr (tl ann3 @ [(''_id'', Oid oid2), (''id'', Str oid2)]),
      db0\<lparr>announcements_collection := [ann1, ann3]\<rparr>)"
proof -
  have v: "validate_dates clock_2029 ''2030-06-30T23:59:59'' (Some []) = None"
    by (simp add: validate_empty_start validate_future_expiration)
  show ?thesis
    using create_announcement_known [OF known_teacher_db0 v, of clock_2029 oid2 "''M''"]
    by (simp add: db0_announcements ann1_def ann3_def has_id_def oid1_def oid2_def opt_str_def
          isoformat_clock_2029)
qed

lemma isoformat_clock_2031: "isoformat (datetime_now clock_2031) = ''2031-01-01T08:00:00''"
  by (simp add: isoformat_def datetime_now_def clock_2031_def zero_pad_2 zero_pad_4)

lemma update_ann1e:
  "update_announcement clock_2029 clock_2029 oid1 ''M'' ''2030-06-30T23:59:59''
     ''mrodriguez'' (Some []) db0
   = (Inr (Some (serialize_announcement ann1e)), db0\<lparr>announcements_collection := [ann1e]\<rparr>)"
proof -
  have v: "validate_dates clock_2029 ''2030-06-30T23:59:59'' (Some []) = None"
    by (simp add: validate_empty_start validate_future_expiration)
  show ?thesis
    using known_teacher_not_falsy [OF known_teacher_db0]
    by (simp add: update_announcement_def v ObjectId_oid1 db0_announcements ann1_def ann1e_def
          apply_set_def opt_str_def isoformat_clock_2029 find_one_Cons)
qed

lemma listed_empty_start:
  "listed_at ''2030-01-01T08:00:00'' ann1e" "listed_at ''2030-01-01T08:00:00'' ann3"
  "\<not> listed_at ''2031-01-01T08:00:00'' ann1e" "\<not> listed_at ''2031-01-01T08:00:00'' ann3"
  by (simp_all add: listed_at_def ann1e_def ann3_def)

subsection \<open>Listing the active announcements\<close>

text \<open>
  C1. \<^verbatim>\<open>get_active_announcements\<close> is to return the announcements that are active at the
  current time: started, and not expired. It does not for this one. The announcement
  created on 2029-09-01 with \<^verbatim>\<open>expiration_date = "2030-01-01 12:00:00"\<close> passes the
  validation of create and is stored. At 08:00 on 2030-01-01 it is active (it expires
  four hours later, and so does the other stored announcement, months later), yet only
  the other one is listed: the query compares the stored strings with the string
  \<^verbatim>\<open>datetime.now().isoformat()\<close>, and as strings \<^verbatim>\<open>"2030-01-01 12:00:00"\<close> is below
  \<^verbatim>\<open>"2030-01-01T08:00:00"\<close>, a space being below \<^verbatim>\<open>T\<close>.
\<close>

theorem list_active_omits_unexpired:
  "create_announcement clock_2029 clock_2029 oid2 ''Exam week'' ''2030-01-01 12:00:00''
     ''mrodriguez'' None db0
   = (Inr (tl ann2 @ [(''_id'', Oid oid2), (''id'', Str oid2)]),
      db0\<lparr>announcements_collection := [ann1, ann2]\<rparr>)
   \<and> filter (is_active (datetime_now clock_2030)) [ann1, ann2] = [ann1, ann2]
   \<and> get_active_announcements clock_2030 (db0\<lparr>announcements_collection := [ann1, ann2]\<rparr>)
     = (Inr [serialize_announcement ann1], db0\<lparr>announcements_collection := [ann1, ann2]\<rparr>)"
proof -
  have "listed_at ''2030-01-01T08:00:00'' ann1" "\<not> listed_at ''2030-01-01T08:00:00'' ann2"
    by (simp_all add: listed_at_def ann1_def ann2_def)
  then have "get_active_announcements clock_2030 (db0\<lparr>announcements_collection := [ann1, ann2]\<rparr>)
     = (Inr [serialize_announcement ann1], db0\<lparr>announcements_collection := [ann1, ann2]\<rparr>)"
    by (simp add: get_active_announcements_def find_coll_def active_query_listed_at Let_def
          isoformat_clock_2030)
  then show ?thesis
    using create_ann2 is_active_ann1 is_active_ann2 by simp
qed

subsection \<open>Authentication comes first\<close>

text \<open>
  C3. When the username does not resolve to an existing teacher record, update, delete,
  create and list-all fail with 401 Unauthorized whatever the other arguments are (dates
  and identifier are never looked at), and the database is returned unchanged.
\<close>

theorem unknown_username_unauthorized:
  assumes "\<not> known_teacher db username"
  shows "update_announcement now1 now2 announcement_id message expiration_date username
             start_date db
           = (Inl (HTTPException 401 ''Unauthorized''), db)
       \<and> delete_announcement announcement_id username db
           = (Inl (HTTPException 401 ''Unauthorized''), db)
       \<and> create_announcement now1 now2 fresh message expiration_date username start_date db
           = (Inl (HTTPException 401 ''Unauthorized''), db)
       \<and> get_all_announcements username db = (Inl (HTTPException 401 ''Unauthorized''), db)"
  using assms
  by (simp add: update_announcement_def delete_announcement_def create_announcement_def
        get_all_announcements_def teacher_lookup)

theorem unknown_username_unauthorized_witness:
  "\<not> known_teacher db0 ''intruder''
   \<and> update_announcement clock_2029 clock_2030 ''not-an-id'' ''M'' ''not a date'' ''intruder'' (Some ''x'') db0
       = (Inl (HTTPException 401 ''Unauthorized''), db0)
   \<and> delete_announcement ''not-an-id'' ''intruder'' db0
       = (Inl (HTTPException 401 ''Unauthorized''), db0)
   \<and> create_announcement clock_2029 clock_2030 oid1 ''M'' ''not a date'' ''intruder'' (Some ''x'') db0
       = (Inl (HTTPException 401 ''Unauthorized''), db0)
   \<and> get_all_announcements ''intruder'' db0 = (Inl (HTTPException 401 ''Unauthorized''), db0)"
proof -
  have h: "\<not> known_teacher db0 ''intruder''"
    by (simp add: known_teacher_def db0_def teachers0_def)
  show ?thesis
    using h unknown_username_unauthorized
      [OF h, of clock_2029 clock_2030 "''not-an-id''" "''M''" "''not a date''" "Some ''x''" oid1]
    by simp
qed

subsection \<open>Order of the checks\<close>



lemma ObjectId_blanks: "ObjectId ''64b7f0c2a1d3e4f5a6b7  d9'' = Some ''64b7f0c2a1d3e4f5a6b7d9''"
  by (simp add: ObjectId_def is_hex_def is_digit_def lower_hex_def is_space_def)

lemma delete_blanks_not_found:
  "delete_announcement ''64b7f0c2a1d3e4f5a6b7  d9'' ''mrodriguez'' db0
   = (Inl (HTTPException 404 ''Announcement not found''), db0)"
  using delete_announcement_known [OF known_teacher_db0 ObjectId_blanks]
  by (simp add: db0_announcements ann1_def has_id_def oid1_def)



subsection \<open>Delete\<close>

text \<open>
  C7. For a known teacher and a well-formed identifier, delete fails with 404 exactly
  when \<^verbatim>\<open>delete_one\<close> deleted nothing, and then the database is unchanged; otherwise it
  returns exactly the confirmation and the collection has one document less. In a
  collection with distinct \<^verbatim>\<open>_id\<close>s, deleting the same identifier a second time fails
  with 404.
\<close>

theorem delete_not_found:
  assumes "known_teacher db username" and "ObjectId announcement_id = Some obj_id"
  shows "((fst (delete_announcement announcement_id username db)
            = Inl (HTTPException 404 ''Announcement not found''))
          = (fst (delete_one (Field ''_id'' (Eq (Oid obj_id))) (announcements_collection db)) = 0))
       \<and> (fst (delete_one (Field ''_id'' (Eq (Oid obj_id))) (announcements_collection db)) = 0
            \<longrightarrow> snd (delete_announcement announcement_id username db) = db)
       \<and> (fst (delete_one (Field ''_id'' (Eq (Oid obj_id))) (announcements_collection db)) \<noteq> 0
            \<longrightarrow> fst (delete_announcement announcement_id username db)
                  = Inr [(''message'', Str ''Announcement deleted successfully'')]
                \<and> Suc (length (announcements_collection
                                (snd (delete_announcement announcement_id username db))))
                  = length (announcements_collection db))
       \<and> (unique_ids (announcements_collection db)
            \<longrightarrow> fst (delete_announcement announcement_id username
                       (snd (delete_announcement announcement_id username db)))
                  = Inl (HTTPException 404 ''Announcement not found''))"
proof -
  let ?q = "Field ''_id'' (Eq (Oid obj_id))"
  let ?coll = "announcements_collection db"
  let ?db' = "snd (delete_announcement announcement_id username db)"
  have cnt: "(fst (delete_one ?q ?coll) = 0) = (\<not> list_ex (has_id (Oid obj_id)) ?coll)"
    by (simp add: delete_one_count matches_id_Oid)
  have first: "delete_announcement announcement_id username db =
     (if list_ex (has_id (Oid obj_id)) ?coll
      then (Inr [(''message'', Str ''Announcement deleted successfully'')],
            db\<lparr>announcements_collection := snd (delete_one ?q ?coll)\<rparr>)
      else (Inl (HTTPException 404 ''Announcement not found''), db))"
    by (rule delete_announcement_known [OF assms])
  have len: "list_ex (has_id (Oid obj_id)) ?coll \<Longrightarrow>
             Suc (length (snd (delete_one ?q ?coll))) = length ?coll"
    using delete_one_length [of ?q ?coll] by (simp add: matches_id_Oid)
  have twice: "fst (delete_announcement announcement_id username ?db')
                 = Inl (HTTPException 404 ''Announcement not found'')"
    if u: "unique_ids ?coll"
  proof -
    have kt: "known_teacher ?db' username"
      using assms(1) first by (simp add: known_teacher_def)
    have gone: "\<not> list_ex (has_id (Oid obj_id)) (announcements_collection ?db')"
      using first delete_one_gone [OF u, of obj_id] by simp
    show ?thesis
      using delete_announcement_known [OF kt assms(2)] gone by simp
  qed
  show ?thesis
    using first cnt len twice by simp
qed

theorem delete_not_found_witness:
  "known_teacher db0 ''mrodriguez'' \<and> ObjectId oid1 = Some oid1
   \<and> unique_ids (announcements_collection db0)
   \<and> delete_announcement oid1 ''mrodriguez'' db0
       = (Inr [(''message'', Str ''Announcement deleted successfully'')],
          db0\<lparr>announcements_collection := []\<rparr>)
   \<and> fst (delete_announcement oid1 ''mrodriguez'' (snd (delete_announcement oid1 ''mrodriguez'' db0)))
       = Inl (HTTPException 404 ''Announcement not found'')"
proof -
  have d: "delete_announcement oid1 ''mrodriguez'' db0
       = (Inr [(''message'', Str ''Announcement deleted successfully'')],
          db0\<lparr>announcements_collection := []\<rparr>)"
    using delete_announcement_known [OF known_teacher_db0 ObjectId_oid1]
    by (simp add: db0_def ann1_def has_id_def)
  show ?thesis
    using delete_not_found [OF known_teacher_db0 ObjectId_oid1] known_teacher_db0 ObjectId_oid1 unique_ids_db0 d
    by simp
qed

subsection \<open>Create\<close>

text \<open>
  C2. Create by a known teacher with \<^verbatim>\<open>expiration_date = "2000-01-01T00:00:00Z"\<close>: the
  \<^verbatim>\<open>Z\<close> is replaced by \<^verbatim>\<open>+00:00\<close>, the string parses to an aware \<^verbatim>\<open>datetime\<close>, and its
  comparison with the naive \<^verbatim>\<open>datetime.now()\<close> raises \<^verbatim>\<open>TypeError\<close>, which the handler
  does not catch. At every reading of the clock the outcome is that \<^verbatim>\<open>TypeError\<close>, not
  the 400 "Expiration date must be in the future"
  (\<open>naive_past_expiration\<close> is the case of a past date without offset, where the 400 is
  raised).
\<close>

theorem create_past_Z_expiration_type_error:
  "create_announcement now1 now2 fresh message ''2000-01-01T00:00:00Z'' ''mrodriguez''
     start_date db0 = (Inl TypeError, db0)"
  using known_teacher_db0
  by (simp add: create_announcement_def known_teacher_not_falsy validate_Z)

text \<open>
  C5. What create returns still has the store's \<^verbatim>\<open>_id\<close> field, with the object id as
  its value, next to the \<^verbatim>\<open>id\<close> string: \<^verbatim>\<open>insert_one\<close> wrote it into the dictionary, and
  create does not pass its result through \<^verbatim>\<open>serialize_announcement\<close>.
\<close>

theorem create_returns_store_id:
  "fst (create_announcement clock_2029 clock_2029 oid2 ''Exam week'' ''2030-06-30T23:59:59''
          ''mrodriguez'' None db0)
   = Inr [(''message'', Str ''Exam week''), (''start_date'', Null),
          (''expiration_date'', Str ''2030-06-30T23:59:59''),
          (''created_by'', Str ''mrodriguez''),
          (''created_at'', Str ''2029-09-01T08:00:00''),
          (''_id'', Oid oid2), (''id'', Str oid2)]"
  using create_announcement_known [OF known_teacher_db0 validate_future_expiration,
          of clock_2029 oid2 "''Exam week''"]
  by (simp add: db0_def ann1_def has_id_def oid1_def oid2_def opt_str_def isoformat_clock_2029)

text \<open>
  C8. When create succeeds, the collection has exactly one more document, the last one.
  It holds \<^verbatim>\<open>message\<close>, \<^verbatim>\<open>start_date\<close> and \<^verbatim>\<open>expiration_date\<close> as the strings that were
  passed in (\<^verbatim>\<open>start_date\<close> null when none was passed), \<^verbatim>\<open>created_by\<close> the requesting
  username, \<^verbatim>\<open>created_at\<close> the clock read for it, printed by \<^verbatim>\<open>isoformat\<close>, and the
  \<^verbatim>\<open>_id\<close> the insert assigned. The returned object has the same fields and, as \<^verbatim>\<open>id\<close>,
  that identifier as a string.
\<close>

theorem create_persists_inputs:
  assumes "create_announcement now1 now2 fresh message expiration_date username start_date db
           = (Inr r, db')"
  shows "\<exists>doc. announcements_collection db' = announcements_collection db @ [doc]
           \<and> teachers_collection db' = teachers_collection db
           \<and> map fst doc = [''_id'', ''message'', ''start_date'', ''expiration_date'',
                             ''created_by'', ''created_at'']
           \<and> map_of doc ''message'' = Some (Str message)
           \<and> map_of doc ''start_date''
               = Some (case start_date of None \<Rightarrow> Null | Some s \<Rightarrow> Str s)
           \<and> map_of doc ''expiration_date'' = Some (Str expiration_date)
           \<and> map_of doc ''created_by'' = Some (Str username)
           \<and> map_of doc ''created_at'' = Some (Str (isoformat (datetime_now now2)))
           \<and> map_of doc ''_id'' = Some (Oid fresh)
           \<and> map_of r ''id'' = Some (Str fresh)
           \<and> (\<forall>k. k \<noteq> ''id'' \<longrightarrow> map_of r k = map_of doc k)"
proof -
  from create_announcement_Inr [OF assms]
  have kt: "known_teacher db username"
    and vd: "validate_dates now1 expiration_date start_date = None"
    and nd: "\<not> list_ex (has_id (Oid fresh)) (announcements_collection db)"
    by simp_all
  from assms create_announcement_known [OF kt vd, of now2 fresh message] nd
  have r: "r = [(''message'', Str message), (''start_date'', opt_str start_date),
                (''expiration_date'', Str expiration_date), (''created_by'', Str username),
                (''created_at'', Str (isoformat (datetime_now now2))),
                (''_id'', Oid fresh), (''id'', Str fresh)]"
    and d: "db' = db\<lparr>announcements_collection := announcements_collection db @
                 [[(''_id'', Oid fresh), (''message'', Str message),
                   (''start_date'', opt_str start_date),
                   (''expiration_date'', Str expiration_date),
                   (''created_by'', Str username),
                   (''created_at'', Str (isoformat (datetime_now now2)))]]\<rparr>"
    by simp_all
  show ?thesis
    unfolding r d by (simp add: opt_str_def)
qed

theorem create_persists_inputs_witness:
  "create_announcement clock_2029 clock_2030 oid2 ''Exam week'' ''2030-06-30T23:59:59''
          ''mrodriguez'' (Some ''2030-06-01'') db0
   = (Inr [(''message'', Str ''Exam week''), (''start_date'', Str ''2030-06-01''),
           (''expiration_date'', Str ''2030-06-30T23:59:59''),
           (''created_by'', Str ''mrodriguez''),
           (''created_at'', Str ''2030-01-01T08:00:00''),
           (''_id'', Oid oid2), (''id'', Str oid2)],
      db0\<lparr>announcements_collection := [ann1,
           [(''_id'', Oid oid2), (''message'', Str ''Exam week''),
            (''start_date'', Str ''2030-06-01''),
            (''expiration_date'', Str ''2030-06-30T23:59:59''),
            (''created_by'', Str ''mrodriguez''),
            (''created_at'', Str ''2030-01-01T08:00:00'')]]\<rparr>)
   \<and> (\<exists>doc. announcements_collection
               (snd (create_announcement clock_2029 clock_2030 oid2 ''Exam week''
                       ''2030-06-30T23:59:59'' ''mrodriguez'' (Some ''2030-06-01'') db0))
             = announcements_collection db0 @ [doc]
           \<and> map_of doc ''start_date'' = Some (Str ''2030-06-01'')
           \<and> map_of doc ''created_at'' = Some (Str ''2030-01-01T08:00:00''))"
proof -
  have c: "create_announcement clock_2029 clock_2030 oid2 ''Exam week'' ''2030-06-30T23:59:59''
          ''mrodriguez'' (Some ''2030-06-01'') db0
   = (Inr [(''message'', Str ''Exam week''), (''start_date'', Str ''2030-06-01''),
           (''expiration_date'', Str ''2030-06-30T23:59:59''),
           (''created_by'', Str ''mrodriguez''),
           (''created_at'', Str ''2030-01-01T08:00:00''),
           (''_id'', Oid oid2), (''id'', Str oid2)],
      db0\<lparr>announcements_collection := [ann1,
           [(''_id'', Oid oid2), (''message'', Str ''Exam week''),
            (''start_date'', Str ''2030-06-01''),
            (''expiration_date'', Str ''2030-06-30T23:59:59''),
            (''created_by'', Str ''mrodriguez''),
            (''created_at'', Str ''2030-01-01T08:00:00'')]]\<rparr>)"
    using create_announcement_known [OF known_teacher_db0 validate_start_before,
            of clock_2030 oid2 "''Exam week''"]
    by (simp add: db0_def ann1_def has_id_def oid1_def oid2_def opt_str_def
          isoformat_clock_2030)
  from create_persists_inputs [OF c]
  show ?thesis using c by (simp add: isoformat_clock_2030)
qed

subsection \<open>Update\<close>

text \<open>
  C9. When update succeeds, one document of the collection, the one with the given
  \<^verbatim>\<open>_id\<close>, is replaced and no other document changes. In the new document
  \<^verbatim>\<open>message\<close>, \<^verbatim>\<open>start_date\<close>, \<^verbatim>\<open>expiration_date\<close>, \<^verbatim>\<open>updated_by\<close> and \<^verbatim>\<open>updated_at\<close> have
  the new values and every other field, in particular \<^verbatim>\<open>_id\<close>, \<^verbatim>\<open>created_by\<close> and
  \<^verbatim>\<open>created_at\<close>, is as before. The result is that document as \<^verbatim>\<open>find_one\<close> reads it back
  from the updated collection, serialized, so its \<^verbatim>\<open>id\<close> is the identifier.
\<close>

theorem update_overwrites_only:
  assumes "update_announcement now1 now2 announcement_id message expiration_date username
             start_date db = (Inr r, db')"
  shows "\<exists>obj_id i d'. ObjectId announcement_id = Some obj_id
           \<and> i < length (announcements_collection db)
           \<and> has_id (Oid obj_id) (announcements_collection db ! i)
           \<and> announcements_collection db' = (announcements_collection db)[i := d']
           \<and> teachers_collection db' = teachers_collection db
           \<and> map_of d' ''message'' = Some (Str message)
           \<and> map_of d' ''start_date''
               = Some (case start_date of None \<Rightarrow> Null | Some s \<Rightarrow> Str s)
           \<and> map_of d' ''expiration_date'' = Some (Str expiration_date)
           \<and> map_of d' ''updated_by'' = Some (Str username)
           \<and> map_of d' ''updated_at'' = Some (Str (isoformat (datetime_now now2)))
           \<and> (\<forall>k. k \<notin> {''message'', ''start_date'', ''expiration_date'', ''updated_by'',
                         ''updated_at''}
                  \<longrightarrow> map_of d' k = map_of (announcements_collection db ! i) k)
           \<and> map_of d' ''_id'' = Some (Oid obj_id)
           \<and> map_of d' ''created_by'' = map_of (announcements_collection db ! i) ''created_by''
           \<and> map_of d' ''created_at'' = map_of (announcements_collection db ! i) ''created_at''
           \<and> find_one (Field ''_id'' (Eq (Oid obj_id))) (announcements_collection db') = Some d'
           \<and> r = Some (serialize_announcement d')
           \<and> map_of (serialize_announcement d') ''id'' = Some (Str obj_id)"
proof -
  let ?coll = "announcements_collection db"
  let ?ch = "[(''message'', Str message), (''start_date'', opt_str start_date),
              (''expiration_date'', Str expiration_date), (''updated_by'', Str username),
              (''updated_at'', Str (isoformat (datetime_now now2)))]"
  from update_announcement_Inr [OF assms] obtain obj_id
    where kt: "known_teacher db username"
      and vd: "validate_dates now1 expiration_date start_date = None"
      and oi: "ObjectId announcement_id = Some obj_id"
      and ex: "list_ex (has_id (Oid obj_id)) ?coll"
    by blast
  from update_announcement_known(2) [OF kt vd oi, where message = message and ?now2.0 = now2] ex obtain i
    where i: "i < length ?coll" "has_id (Oid obj_id) (?coll ! i)"
      and f: "find_one (Field ''_id'' (Eq (Oid obj_id))) (?coll [i := apply_set ?ch (?coll ! i)])
              = Some (apply_set ?ch (?coll ! i))"
      and u: "update_announcement now1 now2 announcement_id message expiration_date username
                start_date db
              = (Inr (Some (serialize_announcement (apply_set ?ch (?coll ! i)))),
                 db\<lparr>announcements_collection := ?coll [i := apply_set ?ch (?coll ! i)]\<rparr>)"
    by blast
  let ?d = "apply_set ?ch (?coll ! i)"
  from assms u have r: "r = Some (serialize_announcement ?d)"
    and d: "db' = db\<lparr>announcements_collection := ?coll [i := ?d]\<rparr>"
    by simp_all
  have id: "map_of ?d ''_id'' = Some (Oid obj_id)"
    using i(2) by (simp add: map_of_apply_set_changes has_id_def)
  have "ObjectId announcement_id = Some obj_id
           \<and> i < length ?coll
           \<and> has_id (Oid obj_id) (?coll ! i)
           \<and> announcements_collection db' = ?coll[i := ?d]
           \<and> teachers_collection db' = teachers_collection db
           \<and> map_of ?d ''message'' = Some (Str message)
           \<and> map_of ?d ''start_date''
               = Some (case start_date of None \<Rightarrow> Null | Some s \<Rightarrow> Str s)
           \<and> map_of ?d ''expiration_date'' = Some (Str expiration_date)
           \<and> map_of ?d ''updated_by'' = Some (Str username)
           \<and> map_of ?d ''updated_at'' = Some (Str (isoformat (datetime_now now2)))
           \<and> (\<forall>k. k \<notin> {''message'', ''start_date'', ''expiration_date'', ''updated_by'',
                         ''updated_at''}
                  \<longrightarrow> map_of ?d k = map_of (?coll ! i) k)
           \<and> map_of ?d ''_id'' = Some (Oid obj_id)
           \<and> map_of ?d ''created_by'' = map_of (?coll ! i) ''created_by''
           \<and> map_of ?d ''created_at'' = map_of (?coll ! i) ''created_at''
           \<and> find_one (Field ''_id'' (Eq (Oid obj_id))) (announcements_collection db') = Some ?d
           \<and> r = Some (serialize_announcement ?d)
           \<and> map_of (serialize_announcement ?d) ''id'' = Some (Str obj_id)"
    using oi i f r id unfolding d
    by (simp add: map_of_apply_set_changes map_of_serialize opt_str_def)
  then show ?thesis by blast
qed

theorem update_overwrites_only_witness:
  "update_announcement clock_2029 clock_2030 oid1 ''Moved to Friday'' ''2030-06-30T23:59:59''
     ''mrodriguez'' (Some ''2030-06-01'') db0
   = (Inr (Some [(''message'', Str ''Moved to Friday''), (''start_date'', Str ''2030-06-01''),
                 (''expiration_date'', Str ''2030-06-30T23:59:59''),
                 (''created_by'', Str ''mrodriguez''),
                 (''created_at'', Str ''2029-09-01T08:00:00''),
                 (''updated_by'', Str ''mrodriguez''),
                 (''updated_at'', Str ''2030-01-01T08:00:00''),
                 (''id'', Str oid1)]),
      db0\<lparr>announcements_collection :=
           [[(''_id'', Oid oid1), (''message'', Str ''Moved to Friday''),
             (''start_date'', Str ''2030-06-01''),
             (''expiration_date'', Str ''2030-06-30T23:59:59''),
             (''created_by'', Str ''mrodriguez''),
             (''created_at'', Str ''2029-09-01T08:00:00''),
             (''updated_by'', Str ''mrodriguez''),
             (''updated_at'', Str ''2030-01-01T08:00:00'')]]\<rparr>)
   \<and> (\<exists>d'. announcements_collection
               (snd (update_announcement clock_2029 clock_2030 oid1 ''Moved to Friday''
                       ''2030-06-30T23:59:59'' ''mrodriguez'' (Some ''2030-06-01'') db0))
             = [d']
           \<and> map_of d' ''message'' = Some (Str ''Moved to Friday'')
           \<and> map_of d' ''created_by'' = map_of ann1 ''created_by''
           \<and> map_of d' ''created_at'' = map_of ann1 ''created_at''
           \<and> map_of d' ''_id'' = Some (Oid oid1))"
proof -
  note u = update_db0
  from update_overwrites_only [OF u]
  show ?thesis using u by (simp add: ObjectId_oid1 db0_announcements)
qed

subsection \<open>Validation of the start date\<close>

text \<open>
  C6, as the code has it. For a known teacher, in create and in update alike, and for
  dates written without UTC designator or offset: an \<^verbatim>\<open>expiration_date\<close> that does not
  parse gives 400 "Invalid date format"; one that parses to a time not after now gives 400
  "Expiration date must be in the future", whatever the \<^verbatim>\<open>start_date\<close> is; an empty
  \<^verbatim>\<open>start_date\<close> is validated like an absent one. When the \<^verbatim>\<open>expiration_date\<close> has passed
  its check and a non-empty \<^verbatim>\<open>start_date\<close> is given, then a \<^verbatim>\<open>start_date\<close> that does not
  parse gives 400 "Invalid date format", one that parses to a time not before the
  expiration gives 400 "Start date must be before expiration date", and the operation
  succeeds only if the \<^verbatim>\<open>start_date\<close> parses to a time strictly before the expiration. With
  each of these errors the database is returned unchanged.
\<close>

theorem start_date_validation:
  assumes "known_teacher db username"
  shows "(fromisoformat (replace_Z expiration_date) = None \<longrightarrow>
            create_announcement now1 now2 fresh message expiration_date username start_date db
              = (Inl (HTTPException 400 ''Invalid date format''), db)
          \<and> update_announcement now1 now2 announcement_id message expiration_date username
              start_date db
              = (Inl (HTTPException 400 ''Invalid date format''), db))
       \<and> (fromisoformat (replace_Z expiration_date) = Some exp_date
            \<and> utcoffset exp_date = None
            \<and> wall_micros exp_date \<le> wall_micros (datetime_now now1) \<longrightarrow>
            create_announcement now1 now2 fresh message expiration_date username start_date db
              = (Inl (HTTPException 400 ''Expiration date must be in the future''), db)
          \<and> update_announcement now1 now2 announcement_id message expiration_date username
              start_date db
              = (Inl (HTTPException 400 ''Expiration date must be in the future''), db))
       \<and> validate_dates now1 expiration_date (Some []) = validate_dates now1 expiration_date None
       \<and> (fromisoformat (replace_Z expiration_date) = Some exp_date
            \<and> utcoffset exp_date = None
            \<and> wall_micros (datetime_now now1) < wall_micros exp_date
            \<and> start_date = Some sd \<and> sd \<noteq> [] \<longrightarrow>
            (fromisoformat (replace_Z sd) = None \<longrightarrow>
               create_announcement now1 now2 fresh message expiration_date username start_date db
                 = (Inl (HTTPException 400 ''Invalid date format''), db)
             \<and> update_announcement now1 now2 announcement_id message expiration_date username
                  start_date db
                 = (Inl (HTTPException 400 ''Invalid date format''), db))
          \<and> (fromisoformat (replace_Z sd) = Some start_dt \<and> utcoffset start_dt = None
               \<and> wall_micros exp_date \<le> wall_micros start_dt \<longrightarrow>
               create_announcement now1 now2 fresh message expiration_date username start_date db
                 = (Inl (HTTPException 400 ''Start date must be before expiration date''), db)
             \<and> update_announcement now1 now2 announcement_id message expiration_date username
                  start_date db
                 = (Inl (HTTPException 400 ''Start date must be before expiration date''), db))
          \<and> (create_announcement now1 now2 fresh message expiration_date username start_date db
                 = (Inr r, db')
              \<or> update_announcement now1 now2 announcement_id message expiration_date username
                  start_date db = (Inr r', db') \<longrightarrow>
               (\<exists>dt. fromisoformat (replace_Z sd) = Some dt \<and> utcoffset dt = None
                     \<and> wall_micros dt < wall_micros exp_date)))"
proof -
  let ?c = "create_announcement now1 now2 fresh message expiration_date username start_date db"
  let ?u = "update_announcement now1 now2 announcement_id message expiration_date username
              start_date db"
  let ?v = "validate_dates now1 expiration_date start_date"
  have fail: "?v = Some e \<Longrightarrow> ?c = (Inl e, db) \<and> ?u = (Inl e, db)" for e
    using create_announcement_invalid [OF assms] update_announcement_invalid [OF assms]
    by simp
  have ok: "?c = (Inr r, db') \<or> ?u = (Inr r', db') \<Longrightarrow> ?v = None"
    using create_announcement_Inr update_announcement_Inr by blast
  have A: "fromisoformat (replace_Z expiration_date) = None \<longrightarrow>
        ?c = (Inl (HTTPException 400 ''Invalid date format''), db)
      \<and> ?u = (Inl (HTTPException 400 ''Invalid date format''), db)"
    using fail validate_dates_unparsed_expiration by simp
  have E: "fromisoformat (replace_Z expiration_date) = Some exp_date
            \<and> utcoffset exp_date = None
            \<and> wall_micros exp_date \<le> wall_micros (datetime_now now1) \<longrightarrow>
        ?c = (Inl (HTTPException 400 ''Expiration date must be in the future''), db)
      \<and> ?u = (Inl (HTTPException 400 ''Expiration date must be in the future''), db)"
    using fail naive_past_expiration [of expiration_date exp_date now1 start_date] by simp
  have B: "(fromisoformat (replace_Z sd) = None \<longrightarrow>
               ?c = (Inl (HTTPException 400 ''Invalid date format''), db)
             \<and> ?u = (Inl (HTTPException 400 ''Invalid date format''), db))
          \<and> (fromisoformat (replace_Z sd) = Some start_dt \<and> utcoffset start_dt = None
               \<and> wall_micros exp_date \<le> wall_micros start_dt \<longrightarrow>
               ?c = (Inl (HTTPException 400 ''Start date must be before expiration date''), db)
             \<and> ?u = (Inl (HTTPException 400 ''Start date must be before expiration date''), db))
          \<and> (?c = (Inr r, db') \<or> ?u = (Inr r', db') \<longrightarrow>
               (\<exists>dt. fromisoformat (replace_Z sd) = Some dt \<and> utcoffset dt = None
                     \<and> wall_micros dt < wall_micros exp_date))"
    if h: "fromisoformat (replace_Z expiration_date) = Some exp_date"
       "utcoffset exp_date = None"
       "wall_micros (datetime_now now1) < wall_micros exp_date"
       "start_date = Some sd" "sd \<noteq> []"
  proof -
    note v = validate_dates_start [OF h(1) h(2) h(3) h(5)]
    have 1: "fromisoformat (replace_Z sd) = None \<Longrightarrow>
               ?v = Some (HTTPException 400 ''Invalid date format'')"
      using v h(4) by simp
    have 2: "fromisoformat (replace_Z sd) = Some start_dt \<and> utcoffset start_dt = None
               \<and> wall_micros exp_date \<le> wall_micros start_dt \<Longrightarrow>
               ?v = Some (HTTPException 400 ''Start date must be before expiration date'')"
      using v h(4) by simp
    have 3: "?v = None \<Longrightarrow> \<exists>dt. fromisoformat (replace_Z sd) = Some dt \<and> utcoffset dt = None
                     \<and> wall_micros dt < wall_micros exp_date"
      using v h(4) by (auto split: option.splits if_splits)
    have c1: "fromisoformat (replace_Z sd) = None \<longrightarrow>
               ?c = (Inl (HTTPException 400 ''Invalid date format''), db)
             \<and> ?u = (Inl (HTTPException 400 ''Invalid date format''), db)"
      using 1 fail by simp
    have c2: "fromisoformat (replace_Z sd) = Some start_dt \<and> utcoffset start_dt = None
               \<and> wall_micros exp_date \<le> wall_micros start_dt \<longrightarrow>
               ?c = (Inl (HTTPException 400 ''Start date must be before expiration date''), db)
             \<and> ?u = (Inl (HTTPException 400 ''Start date must be before expiration date''), db)"
      using 2 fail by simp
    have c3: "?c = (Inr r, db') \<or> ?u = (Inr r', db') \<longrightarrow>
               (\<exists>dt. fromisoformat (replace_Z sd) = Some dt \<and> utcoffset dt = None
                     \<and> wall_micros dt < wall_micros exp_date)"
    proof
      assume "?c = (Inr r, db') \<or> ?u = (Inr r', db')"
      then have "?v = None" by (rule ok)
      then show "\<exists>dt. fromisoformat (replace_Z sd) = Some dt \<and> utcoffset dt = None
                     \<and> wall_micros dt < wall_micros exp_date"
        by (rule 3)
    qed
    show ?thesis using c1 c2 c3 by (intro conjI)
  qed
  show ?thesis using A E B validate_empty_start [of now1 expiration_date] by blast
qed

theorem start_date_validation_witness:
  "known_teacher db0 ''mrodriguez''
   \<and> fromisoformat (replace_Z ''2030-06-30T23:59:59'') = Some exp_june
   \<and> utcoffset exp_june = None
   \<and> wall_micros (datetime_now clock_2029) < wall_micros exp_june
   \<and> fromisoformat (replace_Z ''2030-07-01'') = Some start_july
   \<and> utcoffset start_july = None
   \<and> wall_micros exp_june \<le> wall_micros start_july
   \<and> create_announcement clock_2029 clock_2029 oid2 ''M'' ''2030-06-30T23:59:59'' ''mrodriguez''
         (Some ''2030-07-01'') db0
       = (Inl (HTTPException 400 ''Start date must be before expiration date''), db0)
   \<and> update_announcement clock_2029 clock_2029 oid1 ''M'' ''2030-06-30T23:59:59'' ''mrodriguez''
         (Some ''2030-07-01'') db0
       = (Inl (HTTPException 400 ''Start date must be before expiration date''), db0)
   \<and> fromisoformat (replace_Z ''soon'') = None
   \<and> create_announcement clock_2029 clock_2029 oid2 ''M'' ''2030-06-30T23:59:59'' ''mrodriguez''
         (Some ''soon'') db0
       = (Inl (HTTPException 400 ''Invalid date format''), db0)
   \<and> update_announcement clock_2029 clock_2029 oid1 ''M'' ''2030-06-30T23:59:59'' ''mrodriguez''
         (Some ''soon'') db0
       = (Inl (HTTPException 400 ''Invalid date format''), db0)
   \<and> fromisoformat (replace_Z ''2000-01-01T00:00:00'') = Some exp_2000
   \<and> utcoffset exp_2000 = None
   \<and> wall_micros exp_2000 \<le> wall_micros (datetime_now clock_2030)
   \<and> create_announcement clock_2030 clock_2030 oid2 ''M'' ''2000-01-01T00:00:00'' ''mrodriguez''
         (Some ''2001-01-01T00:00:00'') db0
       = (Inl (HTTPException 400 ''Expiration date must be in the future''), db0)
   \<and> update_announcement clock_2030 clock_2030 oid1 ''M'' ''2000-01-01T00:00:00'' ''mrodriguez''
         (Some ''2001-01-01T00:00:00'') db0
       = (Inl (HTTPException 400 ''Expiration date must be in the future''), db0)
   \<and> create_announcement clock_2029 clock_2029 oid2 ''M'' ''tomorrow'' ''mrodriguez''
         (Some ''2030-07-01'') db0
       = (Inl (HTTPException 400 ''Invalid date format''), db0)"
  using known_teacher_db0 parse_exp_june parse_start_july parse_soon june_facts
    parse_exp_2000 parse_tomorrow
    start_date_validation [OF known_teacher_db0,
      where expiration_date = "''2030-06-30T23:59:59''" and exp_date = exp_june
        and ?now1.0 = clock_2029 and ?now2.0 = clock_2029 and start_date = "Some ''2030-07-01''"
        and sd = "''2030-07-01''" and start_dt = start_july and fresh = oid2 and message = "''M''"
        and announcement_id = oid1]
    start_date_validation [OF known_teacher_db0,
      where expiration_date = "''2030-06-30T23:59:59''" and exp_date = exp_june
        and ?now1.0 = clock_2029 and ?now2.0 = clock_2029 and start_date = "Some ''soon''"
        and sd = "''soon''" and fresh = oid2 and message = "''M''"
        and announcement_id = oid1]
    start_date_validation [OF known_teacher_db0,
      where expiration_date = "''2000-01-01T00:00:00''" and exp_date = exp_2000
        and ?now1.0 = clock_2030 and ?now2.0 = clock_2030
        and start_date = "Some ''2001-01-01T00:00:00''"
        and fresh = oid2 and message = "''M''" and announcement_id = oid1]
    start_date_validation [OF known_teacher_db0,
      where expiration_date = "''tomorrow''"
        and ?now1.0 = clock_2029 and ?now2.0 = clock_2029
        and start_date = "Some ''2030-07-01''"
        and fresh = oid2 and message = "''M''" and announcement_id = oid1]
  by simp

text \<open>
  C6 as stated fails in two ways. With an expiration date in the past and a start date
  after it, the error is the one about the expiration date, which is checked first, not
  "Start date must be before expiration date". And a \<^verbatim>\<open>start_date\<close> that is given as the
  empty string (\<open>[]\<close>) does not parse, yet nothing is checked: the announcement is created
  and stored.
\<close>

theorem start_date_validation_counterexample:
  "parse_timestamp ''2001-01-01T00:00:00'' = Some start_2001
   \<and> parse_timestamp ''2000-01-01T00:00:00'' = Some exp_2000
   \<and> dt_ge start_2001 exp_2000 = Inr True
   \<and> create_announcement clock_2030 clock_2030 oid2 ''M'' ''2000-01-01T00:00:00'' ''mrodriguez''
         (Some ''2001-01-01T00:00:00'') db0
       = (Inl (HTTPException 400 ''Expiration date must be in the future''), db0)
   \<and> parse_timestamp [] = None
   \<and> create_announcement clock_2029 clock_2029 oid2 ''M'' ''2030-06-30T23:59:59'' ''mrodriguez''
         (Some []) db0
       = (Inr [(''message'', Str ''M''), (''start_date'', Str []),
               (''expiration_date'', Str ''2030-06-30T23:59:59''),
               (''created_by'', Str ''mrodriguez''),
               (''created_at'', Str ''2029-09-01T08:00:00''),
               (''_id'', Oid oid2), (''id'', Str oid2)],
          db0\<lparr>announcements_collection := [ann1,
               [(''_id'', Oid oid2), (''message'', Str ''M''), (''start_date'', Str []),
                (''expiration_date'', Str ''2030-06-30T23:59:59''),
                (''created_by'', Str ''mrodriguez''),
                (''created_at'', Str ''2029-09-01T08:00:00'')]]\<rparr>)"
proof -
  have p: "parse_timestamp ''2001-01-01T00:00:00'' = Some start_2001"
      "parse_timestamp ''2000-01-01T00:00:00'' = Some exp_2000"
      "parse_timestamp [] = None"
    by (simp_all add: parse_timestamp_def parse_defs start_2001_def exp_2000_def)
  have g: "dt_ge start_2001 exp_2000 = Inr True"
    by (simp add: start_2001_def exp_2000_def clock_defs)
  have c1: "create_announcement clock_2030 clock_2030 oid2 ''M'' ''2000-01-01T00:00:00''
         ''mrodriguez'' (Some ''2001-01-01T00:00:00'') db0
       = (Inl (HTTPException 400 ''Expiration date must be in the future''), db0)"
    by (rule create_announcement_invalid [OF known_teacher_db0
          validate_past_expiration_late_start])
  have v: "validate_dates clock_2029 ''2030-06-30T23:59:59'' (Some []) = None"
    by (simp add: validate_empty_start validate_future_expiration)
  have c2: "create_announcement clock_2029 clock_2029 oid2 ''M'' ''2030-06-30T23:59:59''
         ''mrodriguez'' (Some []) db0
       = (Inr [(''message'', Str ''M''), (''start_date'', Str []),
               (''expiration_date'', Str ''2030-06-30T23:59:59''),
               (''created_by'', Str ''mrodriguez''),
               (''created_at'', Str ''2029-09-01T08:00:00''),
               (''_id'', Oid oid2), (''id'', Str oid2)],
          db0\<lparr>announcements_collection := [ann1,
               [(''_id'', Oid oid2), (''message'', Str ''M''), (''start_date'', Str []),
                (''expiration_date'', Str ''2030-06-30T23:59:59''),
                (''created_by'', Str ''mrodriguez''),
                (''created_at'', Str ''2029-09-01T08:00:00'')]]\<rparr>)"
    using create_announcement_known [OF known_teacher_db0 v, of clock_2029 oid2 "''M''"]
    by (simp add: db0_announcements ann1_def has_id_def oid1_def oid2_def opt_str_def
          isoformat_clock_2029)
  show ?thesis using p g c1 c2 by simp
qed

subsection \<open>The empty start date\<close>

text \<open>
  C10. With the empty string (\<open>[]\<close>) as \<^verbatim>\<open>start_date\<close>, the validation is the one of a
  request without \<^verbatim>\<open>start_date\<close>. So a create by a known teacher whose expiration date
  passes, with an unused object id, succeeds and appends a document whose \<^verbatim>\<open>start_date\<close>
  is the empty string; and an update by a known teacher whose expiration date passes, of
  a stored identifier, succeeds and leaves the empty string as the \<^verbatim>\<open>start_date\<close> of that
  document. A stored empty \<^verbatim>\<open>start_date\<close> does not match the null branch of the query of
  \<^verbatim>\<open>get_active_announcements\<close> and matches its \<^verbatim>\<open>$lte\<close> branch at every time, so that
  such an announcement is listed exactly when its \<^verbatim>\<open>expiration_date\<close> is a string not below
  the current time.
\<close>

theorem empty_start_date:
  "validate_dates now expiration_date (Some []) = validate_dates now expiration_date None
   \<and> (known_teacher db username \<and> validate_dates now1 expiration_date None = None
        \<and> \<not> list_ex (has_id (Oid fresh)) (announcements_collection db)
      \<longrightarrow> (\<exists>r doc.
             create_announcement now1 now2 fresh message expiration_date username (Some []) db
               = (Inr r, db\<lparr>announcements_collection := announcements_collection db @ [doc]\<rparr>)
             \<and> map_of doc ''start_date'' = Some (Str [])))
   \<and> (create_announcement now1 now2 fresh message expiration_date username (Some []) db
        = (Inr r, db')
      \<longrightarrow> map_of (last (announcements_collection db')) ''start_date'' = Some (Str []))
   \<and> (known_teacher db username \<and> validate_dates now1 expiration_date None = None
        \<and> ObjectId announcement_id = Some obj_id
        \<and> list_ex (has_id (Oid obj_id)) (announcements_collection db)
      \<longrightarrow> (\<exists>r i d. i < length (announcements_collection db)
             \<and> has_id (Oid obj_id) (announcements_collection db ! i)
             \<and> update_announcement now1 now2 announcement_id message expiration_date username
                  (Some []) db
               = (Inr r, db\<lparr>announcements_collection := (announcements_collection db)[i := d]\<rparr>)
             \<and> map_of d ''_id'' = Some (Oid obj_id)
             \<and> map_of d ''start_date'' = Some (Str [])))
   \<and> (update_announcement now1 now2 announcement_id message expiration_date username (Some []) db
        = (Inr r2, db2)
      \<longrightarrow> (\<exists>i < length (announcements_collection db2).
             map_of (announcements_collection db2 ! i) ''_id''
               = map_option Oid (ObjectId announcement_id)
             \<and> map_of (announcements_collection db2 ! i) ''start_date'' = Some (Str [])))
   \<and> (map_of a ''start_date'' = Some (Str [])
      \<longrightarrow> \<not> matches (Field ''start_date'' (Eq Null)) a
          \<and> matches (Field ''start_date'' (Lte (Str t))) a
          \<and> listed_at t a
              = (case map_of a ''expiration_date'' of Some (Str e) \<Rightarrow> str_le t e | _ \<Rightarrow> False)
          \<and> (a \<in> set (announcements_collection db3)
               \<and> map_of a ''expiration_date'' = Some (Str e)
               \<and> str_le (isoformat (datetime_now now3)) e
             \<longrightarrow> (\<exists>rs. fst (get_active_announcements now3 db3) = Inr rs
                      \<and> serialize_announcement a \<in> set rs)))
   \<and> get_active_announcements now3 db3
       = (Inr (map serialize_announcement
                 (filter (listed_at (isoformat (datetime_now now3)))
                    (announcements_collection db3))),
          db3)"
proof -
  have cN: "\<exists>r doc.
             create_announcement now1 now2 fresh message expiration_date username (Some []) db
               = (Inr r, db\<lparr>announcements_collection := announcements_collection db @ [doc]\<rparr>)
             \<and> map_of doc ''start_date'' = Some (Str [])"
    if kt: "known_teacher db username"
      and vd: "validate_dates now1 expiration_date None = None"
      and nd: "\<not> list_ex (has_id (Oid fresh)) (announcements_collection db)"
  proof -
    have vd': "validate_dates now1 expiration_date (Some []) = None"
      using vd by (simp add: validate_empty_start)
    let ?doc = "[(''_id'', Oid fresh), (''message'', Str message),
                 (''start_date'', opt_str (Some [])),
                 (''expiration_date'', Str expiration_date),
                 (''created_by'', Str username),
                 (''created_at'', Str (isoformat (datetime_now now2)))]"
    have "create_announcement now1 now2 fresh message expiration_date username (Some []) db
            = (Inr [(''message'', Str message), (''start_date'', opt_str (Some [])),
                    (''expiration_date'', Str expiration_date), (''created_by'', Str username),
                    (''created_at'', Str (isoformat (datetime_now now2))),
                    (''_id'', Oid fresh), (''id'', Str fresh)],
               db\<lparr>announcements_collection := announcements_collection db @ [?doc]\<rparr>)"
      using create_announcement_known [OF kt vd', of now2 fresh message] nd by simp
    moreover have "map_of ?doc ''start_date'' = Some (Str [])"
      by (simp add: opt_str_def)
    ultimately show ?thesis by blast
  qed
  have c: "map_of (last (announcements_collection db')) ''start_date'' = Some (Str [])"
    if h: "create_announcement now1 now2 fresh message expiration_date username (Some []) db
           = (Inr r, db')"
  proof -
    from create_announcement_Inr [OF h]
    have kt: "known_teacher db username"
      and vd: "validate_dates now1 expiration_date (Some []) = None"
      and nd: "\<not> list_ex (has_id (Oid fresh)) (announcements_collection db)"
      by simp_all
    from h create_announcement_known [OF kt vd, of now2 fresh message] nd
    show ?thesis by (auto simp: opt_str_def)
  qed
  let ?coll = "announcements_collection db"
  let ?ch = "[(''message'', Str message), (''start_date'', opt_str (Some [])),
              (''expiration_date'', Str expiration_date), (''updated_by'', Str username),
              (''updated_at'', Str (isoformat (datetime_now now2)))]"
  have uK: "\<exists>i < length ?coll. has_id (Oid oi) (?coll ! i)
            \<and> update_announcement now1 now2 announcement_id message expiration_date username
                (Some []) db
              = (Inr (Some (serialize_announcement (apply_set ?ch (?coll ! i)))),
                 db\<lparr>announcements_collection := ?coll [i := apply_set ?ch (?coll ! i)]\<rparr>)"
    if kt: "known_teacher db username"
      and vd: "validate_dates now1 expiration_date (Some []) = None"
      and oi: "ObjectId announcement_id = Some oi"
      and ex: "list_ex (has_id (Oid oi)) ?coll" for oi
    using update_announcement_known(2)
            [OF kt vd oi, where message = message and ?now2.0 = now2] ex
    by blast
  have uN: "\<exists>r i d. i < length ?coll \<and> has_id (Oid obj_id) (?coll ! i)
             \<and> update_announcement now1 now2 announcement_id message expiration_date username
                  (Some []) db
               = (Inr r, db\<lparr>announcements_collection := ?coll [i := d]\<rparr>)
             \<and> map_of d ''_id'' = Some (Oid obj_id)
             \<and> map_of d ''start_date'' = Some (Str [])"
    if kt: "known_teacher db username"
      and vd: "validate_dates now1 expiration_date None = None"
      and oi: "ObjectId announcement_id = Some obj_id"
      and ex: "list_ex (has_id (Oid obj_id)) ?coll"
  proof -
    have vd': "validate_dates now1 expiration_date (Some []) = None"
      using vd by (simp add: validate_empty_start)
    from uK [OF kt vd' oi ex] obtain i where i: "i < length ?coll"
        "has_id (Oid obj_id) (?coll ! i)"
      and e: "update_announcement now1 now2 announcement_id message expiration_date username
                (Some []) db
              = (Inr (Some (serialize_announcement (apply_set ?ch (?coll ! i)))),
                 db\<lparr>announcements_collection := ?coll [i := apply_set ?ch (?coll ! i)]\<rparr>)"
      by blast
    have "map_of (apply_set ?ch (?coll ! i)) ''_id'' = Some (Oid obj_id)"
         "map_of (apply_set ?ch (?coll ! i)) ''start_date'' = Some (Str [])"
      using i(2) by (simp_all add: map_of_apply_set_changes has_id_def opt_str_def)
    with i e show ?thesis by blast
  qed
  have u: "\<exists>i < length (announcements_collection db2).
             map_of (announcements_collection db2 ! i) ''_id''
               = map_option Oid (ObjectId announcement_id)
             \<and> map_of (announcements_collection db2 ! i) ''start_date'' = Some (Str [])"
    if h: "update_announcement now1 now2 announcement_id message expiration_date username
             (Some []) db = (Inr r2, db2)"
  proof -
    from update_announcement_Inr [OF h] obtain oi
      where kt: "known_teacher db username"
        and vd: "validate_dates now1 expiration_date (Some []) = None"
        and oi: "ObjectId announcement_id = Some oi"
        and ex: "list_ex (has_id (Oid oi)) ?coll"
      by blast
    from uK [OF kt vd oi ex] obtain i where i: "i < length ?coll" "has_id (Oid oi) (?coll ! i)"
      and e: "update_announcement now1 now2 announcement_id message expiration_date username
                (Some []) db
              = (Inr (Some (serialize_announcement (apply_set ?ch (?coll ! i)))),
                 db\<lparr>announcements_collection := ?coll [i := apply_set ?ch (?coll ! i)]\<rparr>)"
      by blast
    from h e have "db2 = db\<lparr>announcements_collection := ?coll [i := apply_set ?ch (?coll ! i)]\<rparr>"
      by simp
    then have d: "announcements_collection db2 = ?coll [i := apply_set ?ch (?coll ! i)]"
      by simp
    have "i < length (announcements_collection db2)
          \<and> map_of (announcements_collection db2 ! i) ''_id''
               = map_option Oid (ObjectId announcement_id)
          \<and> map_of (announcements_collection db2 ! i) ''start_date'' = Some (Str [])"
      using i oi unfolding d
      by (simp add: map_of_apply_set_changes has_id_def opt_str_def)
    then show ?thesis by blast
  qed
  have m: "\<not> matches (Field ''start_date'' (Eq Null)) a
          \<and> matches (Field ''start_date'' (Lte (Str t))) a
          \<and> listed_at t a
              = (case map_of a ''expiration_date'' of Some (Str e) \<Rightarrow> str_le t e | _ \<Rightarrow> False)"
    if "map_of a ''start_date'' = Some (Str [])"
    using that by (simp add: listed_at_def)
  have l: "\<exists>rs. fst (get_active_announcements now3 db3) = Inr rs
                      \<and> serialize_announcement a \<in> set rs"
    if "map_of a ''start_date'' = Some (Str [])" "a \<in> set (announcements_collection db3)"
       "map_of a ''expiration_date'' = Some (Str e)" "str_le (isoformat (datetime_now now3)) e"
  proof -
    have "listed_at (isoformat (datetime_now now3)) a"
      using that by (simp add: listed_at_def)
    then show ?thesis using that(2) by (simp add: get_active_listed)
  qed
  have g: "get_active_announcements now3 db3
       = (Inr (map serialize_announcement
                 (filter (listed_at (isoformat (datetime_now now3)))
                    (announcements_collection db3))),
          db3)"
    by (simp add: get_active_announcements_def find_coll_def active_query_listed_at Let_def)
  have L: "map_of a ''start_date'' = Some (Str [])
      \<longrightarrow> \<not> matches (Field ''start_date'' (Eq Null)) a
          \<and> matches (Field ''start_date'' (Lte (Str t))) a
          \<and> listed_at t a
              = (case map_of a ''expiration_date'' of Some (Str e) \<Rightarrow> str_le t e | _ \<Rightarrow> False)
          \<and> (a \<in> set (announcements_collection db3)
               \<and> map_of a ''expiration_date'' = Some (Str e)
               \<and> str_le (isoformat (datetime_now now3)) e
             \<longrightarrow> (\<exists>rs. fst (get_active_announcements now3 db3) = Inr rs
                      \<and> serialize_announcement a \<in> set rs))"
  proof
    assume a: "map_of a ''start_date'' = Some (Str [])"
    have "a \<in> set (announcements_collection db3)
               \<and> map_of a ''expiration_date'' = Some (Str e)
               \<and> str_le (isoformat (datetime_now now3)) e
             \<longrightarrow> (\<exists>rs. fst (get_active_announcements now3 db3) = Inr rs
                      \<and> serialize_announcement a \<in> set rs)"
      using l [OF a] by simp
    with m [OF a] show "\<not> matches (Field ''start_date'' (Eq Null)) a
          \<and> matches (Field ''start_date'' (Lte (Str t))) a
          \<and> listed_at t a
              = (case map_of a ''expiration_date'' of Some (Str e) \<Rightarrow> str_le t e | _ \<Rightarrow> False)
          \<and> (a \<in> set (announcements_collection db3)
               \<and> map_of a ''expiration_date'' = Some (Str e)
               \<and> str_le (isoformat (datetime_now now3)) e
             \<longrightarrow> (\<exists>rs. fst (get_active_announcements now3 db3) = Inr rs
                      \<and> serialize_announcement a \<in> set rs))"
      by simp
  qed
  have C: "known_teacher db username \<and> validate_dates now1 expiration_date None = None
        \<and> \<not> list_ex (has_id (Oid fresh)) (announcements_collection db)
      \<longrightarrow> (\<exists>r doc.
             create_announcement now1 now2 fresh message expiration_date username (Some []) db
               = (Inr r, db\<lparr>announcements_collection := announcements_collection db @ [doc]\<rparr>)
             \<and> map_of doc ''start_date'' = Some (Str []))"
    using cN by simp
  have C': "create_announcement now1 now2 fresh message expiration_date username (Some []) db
        = (Inr r, db')
      \<longrightarrow> map_of (last (announcements_collection db')) ''start_date'' = Some (Str [])"
    using c by simp
  have U: "known_teacher db username \<and> validate_dates now1 expiration_date None = None
        \<and> ObjectId announcement_id = Some obj_id
        \<and> list_ex (has_id (Oid obj_id)) (announcements_collection db)
      \<longrightarrow> (\<exists>r i d. i < length (announcements_collection db)
             \<and> has_id (Oid obj_id) (announcements_collection db ! i)
             \<and> update_announcement now1 now2 announcement_id message expiration_date username
                  (Some []) db
               = (Inr r, db\<lparr>announcements_collection := (announcements_collection db)[i := d]\<rparr>)
             \<and> map_of d ''_id'' = Some (Oid obj_id)
             \<and> map_of d ''start_date'' = Some (Str []))"
    using uN by simp
  have U': "update_announcement now1 now2 announcement_id message expiration_date username
              (Some []) db = (Inr r2, db2)
      \<longrightarrow> (\<exists>i < length (announcements_collection db2).
             map_of (announcements_collection db2 ! i) ''_id''
               = map_option Oid (ObjectId announcement_id)
             \<and> map_of (announcements_collection db2 ! i) ''start_date'' = Some (Str []))"
    using u by simp
  note V = validate_empty_start [of now expiration_date]
  show ?thesis
    by (rule conjI [OF V conjI [OF C conjI [OF C' conjI [OF U conjI [OF U' conjI [OF L g]]]]]])
qed

theorem empty_start_date_witness:
  "known_teacher db0 ''mrodriguez''
   \<and> validate_dates clock_2029 ''2030-06-30T23:59:59'' None = None
   \<and> \<not> list_ex (has_id (Oid oid2)) (announcements_collection db0)
   \<and> create_announcement clock_2029 clock_2029 oid2 ''M'' ''2030-06-30T23:59:59''
         ''mrodriguez'' (Some []) db0
     = (Inr (tl ann3 @ [(''_id'', Oid oid2), (''id'', Str oid2)]),
        db0\<lparr>announcements_collection := [ann1, ann3]\<rparr>)
   \<and> ObjectId oid1 = Some oid1
   \<and> list_ex (has_id (Oid oid1)) (announcements_collection db0)
   \<and> update_announcement clock_2029 clock_2029 oid1 ''M'' ''2030-06-30T23:59:59''
         ''mrodriguez'' (Some []) db0
     = (Inr (Some (serialize_announcement ann1e)), db0\<lparr>announcements_collection := [ann1e]\<rparr>)
   \<and> map_of ann1e ''start_date'' = Some (Str [])
   \<and> map_of ann3 ''start_date'' = Some (Str [])
   \<and> \<not> matches (Field ''start_date'' (Eq Null)) ann3
   \<and> matches (Field ''start_date'' (Lte (Str (isoformat (datetime_now clock_2030))))) ann3
   \<and> get_active_announcements clock_2030 (db0\<lparr>announcements_collection := [ann1e, ann3]\<rparr>)
     = (Inr [serialize_announcement ann1e, serialize_announcement ann3],
        db0\<lparr>announcements_collection := [ann1e, ann3]\<rparr>)
   \<and> get_active_announcements clock_2031 (db0\<lparr>announcements_collection := [ann1e, ann3]\<rparr>)
     = (Inr [], db0\<lparr>announcements_collection := [ann1e, ann3]\<rparr>)"
proof -
  have s: "map_of ann1e ''start_date'' = Some (Str [])" "map_of ann3 ''start_date'' = Some (Str [])"
    by (simp_all add: ann1e_def ann3_def)
  have nd: "\<not> list_ex (has_id (Oid oid2)) (announcements_collection db0)"
    and ex: "list_ex (has_id (Oid oid1)) (announcements_collection db0)"
    by (simp_all add: db0_announcements ann1_def has_id_def oid1_def oid2_def)
  note t = empty_start_date [where a = ann3 and t = "isoformat (datetime_now clock_2030)"
      and ?now3.0 = clock_2030 and ?db3.0 = "db0\<lparr>announcements_collection := [ann1e, ann3]\<rparr>"]
  note t' = empty_start_date [where ?now3.0 = clock_2031
      and ?db3.0 = "db0\<lparr>announcements_collection := [ann1e, ann3]\<rparr>"]
  have m: "\<not> matches (Field ''start_date'' (Eq Null)) ann3
         \<and> matches (Field ''start_date'' (Lte (Str (isoformat (datetime_now clock_2030))))) ann3"
    using t s(2) by blast
  have g1: "get_active_announcements clock_2030 (db0\<lparr>announcements_collection := [ann1e, ann3]\<rparr>)
     = (Inr [serialize_announcement ann1e, serialize_announcement ann3],
        db0\<lparr>announcements_collection := [ann1e, ann3]\<rparr>)"
  proof -
    from t have "get_active_announcements clock_2030
                   (db0\<lparr>announcements_collection := [ann1e, ann3]\<rparr>)
       = (Inr (map serialize_announcement
                 (filter (listed_at (isoformat (datetime_now clock_2030)))
                    (announcements_collection (db0\<lparr>announcements_collection := [ann1e, ann3]\<rparr>)))),
          db0\<lparr>announcements_collection := [ann1e, ann3]\<rparr>)"
      by blast
    then show ?thesis by (simp add: isoformat_clock_2030 listed_empty_start)
  qed
  have g2: "get_active_announcements clock_2031 (db0\<lparr>announcements_collection := [ann1e, ann3]\<rparr>)
     = (Inr [], db0\<lparr>announcements_collection := [ann1e, ann3]\<rparr>)"
  proof -
    from t' have "get_active_announcements clock_2031
                   (db0\<lparr>announcements_collection := [ann1e, ann3]\<rparr>)
       = (Inr (map serialize_announcement
                 (filter (listed_at (isoformat (datetime_now clock_2031)))
                    (announcements_collection (db0\<lparr>announcements_collection := [ann1e, ann3]\<rparr>)))),
          db0\<lparr>announcements_collection := [ann1e, ann3]\<rparr>)"
      by blast
    then show ?thesis by (simp add: isoformat_clock_2031 listed_empty_start)
  qed
  show ?thesis
    using known_teacher_db0 validate_future_expiration nd ex ObjectId_oid1 create_ann3
      update_ann1e s m g1 g2
    by simp
qed

end
